theory Spec2Isabelle
  imports Complex_Main "HOL-Library.Sublist"
begin

section \<open>JavaScript values\<close>

text \<open>
  A value that arrives as JSON (tool arguments, the untyped parts of a remote payload).
  A number is held as the exact rational of its decimal literal and read as a double
  where the code computes with it; \<open>undefined\<close> is not a JSON
  value and is modelled by \<open>None\<close> of \<open>json option\<close>. An object is the list of its own
  properties in the order \<open>Object.entries\<close> enumerates them, with distinct keys.
\<close>

datatype json =
    JNull
  | JBool bool
  | JNum rat
  | JStr string
  | JArr "json list"
  | JObj "(string \<times> json) list"

text \<open>
  A JavaScript number is an IEEE 754 double: a finite value, an infinity or \<open>NaN\<close>.
  The two zeros are one value here; the formatters below print them alike.
\<close>

datatype number = NaN | PosInf | NegInf | Finite rat

text \<open>\<open>floor_log2 n\<close> is the \<open>k\<close> with \<open>2^k \<le> n < 2^(k+1)\<close>, for a positive \<open>n\<close>.\<close>

function floor_log2 :: "int \<Rightarrow> int" where
  "floor_log2 n = (if n < 2 then 0 else floor_log2 (n div 2) + 1)"
  by pat_completeness auto
termination
  by (relation "measure nat") auto

declare floor_log2.simps [simp del]

definition pow2 :: "int \<Rightarrow> rat" where
  "pow2 e = (if 0 \<le> e then 2 ^ nat e else 1 / 2 ^ nat (- e))"

text \<open>
  The binary exponent of a positive rational \<open>p / q\<close>, the \<open>e\<close> with
  \<open>2^e \<le> p / q < 2^(e+1)\<close>: the difference of the logarithms of \<open>p\<close> and \<open>q\<close>, or one
  less.
\<close>

definition binary_exponent :: "rat \<Rightarrow> int" where
  "binary_exponent x =
     (let (p, q) = quotient_of x;
          e = floor_log2 p - floor_log2 q
      in if pow2 e \<le> x then e else e - 1)"

text \<open>The nearest integer, the even one of the two on a tie.\<close>

definition round_half_even :: "rat \<Rightarrow> int" where
  "round_half_even m =
     (let f = \<lfloor>m\<rfloor>; r = m - of_int f
      in if r < 1 / 2 then f
         else if 1 / 2 < r then f + 1
         else if even f then f else f + 1)"

text \<open>
  The double nearest to a rational, ties to even, as the runtime reads a decimal
  literal and as it rounds the exact result of an arithmetic operation: 53 significant
  bits, the spacing of the doubles never below \<open>2^-1074\<close>, and an infinity once the
  rounded magnitude reaches \<open>2^1024\<close>. A rational that is a double is mapped to itself.
\<close>

definition to_double :: "rat \<Rightarrow> number" where
  "to_double x =
     (if x = 0 then Finite 0
      else (let a = \<bar>x\<bar>;
                ulp = pow2 (max (binary_exponent a) (- 1022) - 52);
                m = of_int (round_half_even (a / ulp)) * ulp
            in if pow2 1024 \<le> m then (if x < 0 then NegInf else PosInf)
               else Finite (if x < 0 then - m else m)))"

text \<open>ToNumber of an optional numeric property: \<open>undefined\<close> gives \<open>NaN\<close>.\<close>

definition to_number :: "rat option \<Rightarrow> number" where
  "to_number v = (case v of None \<Rightarrow> NaN | Some x \<Rightarrow> to_double x)"

text \<open>
  \<open>x / d\<close> for a positive finite divisor \<open>d\<close> (the formatters divide by 1000): the
  exact quotient, rounded to a double.
\<close>

fun js_divide :: "number \<Rightarrow> rat \<Rightarrow> number" where
  "js_divide NaN d = NaN"
| "js_divide PosInf d = PosInf"
| "js_divide NegInf d = NegInf"
| "js_divide (Finite x) d = to_double (x / d)"

text \<open>Property lookup \<open>obj.key\<close> on an object given by its entries.\<close>

definition property :: "(string \<times> json) list \<Rightarrow> string \<Rightarrow> json option" where
  "property obj key = map_of obj key"

text \<open>
  ToBoolean, as used by \<open>if (v)\<close>, \<open>!v\<close> and \<open>v || d\<close>: of the numbers, zero is false.
\<close>

fun truthy :: "json option \<Rightarrow> bool" where
  "truthy None = False"
| "truthy (Some JNull) = False"
| "truthy (Some (JBool b)) = b"
| "truthy (Some (JNum x)) = (to_double x \<noteq> Finite 0)"
| "truthy (Some (JStr s)) = (s \<noteq> [])"
| "truthy (Some (JArr xs)) = True"
| "truthy (Some (JObj kvs)) = True"

text \<open>\<open>Array.prototype.join\<close> on strings: the separator goes between the elements.\<close>

fun join :: "string \<Rightarrow> string list \<Rightarrow> string" where
  "join sep [] = []"
| "join sep [x] = x"
| "join sep (x # y # ys) = x @ sep @ join sep (y # ys)"

text \<open>
  ToString of a value, as a template literal applies it. \<open>Number::toString\<close> of the
  runtime (the shortest decimal that reads back as the same number) is the parameter
  \<open>ns\<close>. An array joins its elements with a comma, \<open>null\<close> elements as the empty string.
\<close>

fun toString :: "(rat \<Rightarrow> string) \<Rightarrow> json \<Rightarrow> string" where
  "toString ns JNull = ''null''"
| "toString ns (JBool b) = (if b then ''true'' else ''false'')"
| "toString ns (JNum x) = ns x"
| "toString ns (JStr s) = s"
| "toString ns (JArr xs) =
     join '','' (map (\<lambda>v. case v of JNull \<Rightarrow> [] | _ \<Rightarrow> toString ns v) xs)"
| "toString ns (JObj kvs) = ''[object Object]''"

definition template :: "(rat \<Rightarrow> string) \<Rightarrow> json option \<Rightarrow> string" where
  "template ns v = (case v of None \<Rightarrow> ''undefined'' | Some j \<Rightarrow> toString ns j)"

text \<open>
  \<open>String.prototype.length\<close> counts UTF-16 code units. A string is held as its UTF-8
  bytes: every byte that is not a continuation byte starts a code point, and a code
  point of four bytes takes two code units.
\<close>

definition js_length :: "string \<Rightarrow> nat" where
  "js_length s =
     length (filter (\<lambda>c. \<not> (128 \<le> (of_char c :: nat) \<and> (of_char c :: nat) < 192)) s)
     + length (filter (\<lambda>c. 240 \<le> (of_char c :: nat)) s)"

section \<open>Configuration (types/config.ts)\<close>

text \<open>
  An optional property of an object literal: left out, present holding \<open>undefined\<close>,
  or present with a value. Object spread copies the last two and skips the first.
\<close>

datatype 'a optional = Omitted | Undefined | Given 'a

text \<open>Reading an optional property: both \<open>Omitted\<close> and \<open>Undefined\<close> read \<open>undefined\<close>.\<close>

fun read :: "'a optional \<Rightarrow> 'a option" where
  "read Omitted = None"
| "read Undefined = None"
| "read (Given v) = Some v"

record OptimizationClientConfig =
  serverUrl :: string
  apiKey :: string
  timeout :: "rat optional"
  retries :: "rat optional"
  debug :: "bool optional"

section \<open>Transport (transport/http.ts)\<close>

text \<open>
  What the constructor of \<open>HttpTransport\<close> hands to \<open>axios.create\<close> and
  \<open>axiosRetry\<close>: base address, credential header, request timeout, retry count.
\<close>

record HttpTransport =
  baseURL :: string
  X_API_Key :: string
  axios_timeout :: rat
  axios_retries :: rat

text \<open>
  \<open>constructor(serverUrl, apiKey, timeout = 30000, retries = 3)\<close>: a default parameter
  applies when the argument is \<open>undefined\<close>.
\<close>

definition new_HttpTransport :: "string \<Rightarrow> string \<Rightarrow> rat option \<Rightarrow> rat option \<Rightarrow> HttpTransport" where
  "new_HttpTransport url key t r =
     \<lparr> baseURL = url, X_API_Key = key,
       axios_timeout = (case t of None \<Rightarrow> 30000 | Some v \<Rightarrow> v),
       axios_retries = (case r of None \<Rightarrow> 3 | Some v \<Rightarrow> v) \<rparr>"

section \<open>Client (client.ts): construction\<close>

record OptimizationClient =
  config :: OptimizationClientConfig
  transport :: HttpTransport

text \<open>One property of \<open>{ key: d, ...config }\<close>: the spread overwrites \<open>d\<close> when \<open>config\<close> has the key.\<close>

fun spread_over :: "'a \<Rightarrow> 'a optional \<Rightarrow> 'a optional" where
  "spread_over d Omitted = Given d"
| "spread_over d Undefined = Undefined"
| "spread_over d (Given v) = Given v"

definition new_OptimizationClient :: "OptimizationClientConfig \<Rightarrow> OptimizationClient" where
  "new_OptimizationClient cfg =
     (let this_config =
            \<lparr> serverUrl = serverUrl cfg, apiKey = apiKey cfg,
              timeout = spread_over 30000 (timeout cfg),
              retries = spread_over 3 (retries cfg),
              debug = spread_over False (debug cfg) \<rparr>
      in \<lparr> config = this_config,
           transport = new_HttpTransport (serverUrl this_config) (apiKey this_config)
                         (read (timeout this_config)) (read (retries this_config)) \<rparr>)"

section \<open>Problems and responses (types/problems.ts, types/solutions.ts)\<close>

text \<open>
  \<open>LpProblem\<close> and \<open>MipProblem\<close> declare the same properties. TypeScript erases the
  declared property types and the adapter forwards tool arguments unchecked, so the
  properties hold any value or \<open>undefined\<close>.
\<close>

record LpProblem =
  variables :: "json option"
  objective :: "json option"
  constraints :: "json option"
  lp_timeout :: "rat option"
  generate_report :: "bool option"

type_synonym MipProblem = LpProblem

record TspProblem =
  locations :: "json option"
  start_location :: "json option"
  tsp_timeout :: "rat option"
  tsp_generate_report :: "bool option"

text \<open>
  \<open>SolveResponse\<close>; \<open>solution\<close> is declared \<open>Record<string, any>\<close> and its type is the
  parameter \<open>'s\<close>: the entries of an object for LP and MIP, and for TSP the two
  properties that \<open>formatTspResponse\<close> reads.
\<close>

record 's SolveResponse =
  status :: string
  objective_value :: "rat option"
  solution :: "'s option"
  report_id :: "string option"
  execution_time_ms :: "rat option"
  solver_info :: "(string \<times> json) list option"

record segment =
  from_name :: string
  to_name :: string
  distance :: rat

record tsp_solution =
  route_names :: "string list option"
  segments :: "segment list option"

type_synonym lp_solution = "(string \<times> json) list"

record AnalysisResponse =
  problem_type :: string
  confidence :: string
  variables_detected :: "string list"
  constraints_detected :: "string list"
  recommendations :: "string list"
  extracted_data :: "(string \<times> json) list option"

record ReportMetadata =
  meta_report_id :: string
  created_at :: string
  meta_problem_type :: string
  meta_status :: string

text \<open>The envelope \<open>{ reports, total }\<close> that the remote returns for a listing.\<close>

record 'm reports_envelope =
  reports :: "'m list"
  total :: rat

section \<open>Client (client.ts): operations\<close>

text \<open>
  The answers of the transport. \<open>post<T>\<close> and \<open>get<T>\<close> are generic in the payload
  type; a record field cannot be, so there is one field for each instantiation that
  client.ts uses. Each takes the transport object, the path and the body, and answers
  \<open>Inr\<close> the response data or \<open>Inl\<close> the error that the promise rejects with.
\<close>

record ('e, 'm) network =
  post_solve :: "HttpTransport \<Rightarrow> string \<Rightarrow> LpProblem \<Rightarrow> 'e + lp_solution SolveResponse"
  post_tsp :: "HttpTransport \<Rightarrow> string \<Rightarrow> TspProblem \<Rightarrow> 'e + tsp_solution SolveResponse"
  post_analyze :: "HttpTransport \<Rightarrow> string \<Rightarrow> json option \<Rightarrow> 'e + AnalysisResponse"
  get_text :: "HttpTransport \<Rightarrow> string \<Rightarrow> 'e + string"
  get_reports :: "HttpTransport \<Rightarrow> string \<Rightarrow> 'e + 'm reports_envelope"

text \<open>
  What an operation does besides returning: lines on the console and calls of the
  transport, in order. \<open>DescriptionBody d\<close> is the object \<open>{ description: d }\<close>.
\<close>

datatype body = ProblemBody LpProblem | TspBody TspProblem | DescriptionBody "json option"

datatype logged = LoggedBody body | LoggedValue "json option"

datatype effect = Console string "logged list" | Post string body | Get string

definition debug_log :: "OptimizationClient \<Rightarrow> string \<Rightarrow> logged list \<Rightarrow> effect list" where
  "debug_log this msg vs =
     (if read (debug (config this)) = Some True then [Console msg vs] else [])"

definition solveLp ::
  "('e, 'm) network \<Rightarrow> OptimizationClient \<Rightarrow> LpProblem
    \<Rightarrow> effect list \<times> ('e + lp_solution SolveResponse)" where
  "solveLp net this problem =
     (debug_log this ''[OptimizationClient] Solving LP problem:'' [LoggedBody (ProblemBody problem)]
        @ [Post ''/api/solve/lp'' (ProblemBody problem)],
      post_solve net (transport this) ''/api/solve/lp'' problem)"

definition solveMip ::
  "('e, 'm) network \<Rightarrow> OptimizationClient \<Rightarrow> MipProblem
    \<Rightarrow> effect list \<times> ('e + lp_solution SolveResponse)" where
  "solveMip net this problem =
     (debug_log this ''[OptimizationClient] Solving MIP problem:'' [LoggedBody (ProblemBody problem)]
        @ [Post ''/api/solve/mip'' (ProblemBody problem)],
      post_solve net (transport this) ''/api/solve/mip'' problem)"

definition solveTsp ::
  "('e, 'm) network \<Rightarrow> OptimizationClient \<Rightarrow> TspProblem
    \<Rightarrow> effect list \<times> ('e + tsp_solution SolveResponse)" where
  "solveTsp net this problem =
     (debug_log this ''[OptimizationClient] Solving TSP problem:'' [LoggedBody (TspBody problem)]
        @ [Post ''/api/solve/tsp'' (TspBody problem)],
      post_tsp net (transport this) ''/api/solve/tsp'' problem)"

definition analyzeProblem ::
  "('e, 'm) network \<Rightarrow> OptimizationClient \<Rightarrow> json option
    \<Rightarrow> effect list \<times> ('e + AnalysisResponse)" where
  "analyzeProblem net this description =
     (debug_log this ''[OptimizationClient] Analyzing problem'' []
        @ [Post ''/api/analyze'' (DescriptionBody description)],
      post_analyze net (transport this) ''/api/analyze'' description)"

definition getReport ::
  "(rat \<Rightarrow> string) \<Rightarrow> ('e, 'm) network \<Rightarrow> OptimizationClient \<Rightarrow> json option
    \<Rightarrow> effect list \<times> ('e + string)" where
  "getReport ns net this reportId =
     (let path = ''/api/reports/'' @ template ns reportId
      in (debug_log this ''[OptimizationClient] Getting report:'' [LoggedValue reportId]
            @ [Get path],
          get_text net (transport this) path))"

text \<open>\<open>listReports(limit = 50)\<close>: the default applies when the argument is \<open>undefined\<close>.\<close>

definition listReports ::
  "(rat \<Rightarrow> string) \<Rightarrow> ('e, 'm) network \<Rightarrow> OptimizationClient \<Rightarrow> rat option
    \<Rightarrow> effect list \<times> ('e + 'm list)" where
  "listReports ns net this limit =
     (let l = (case limit of None \<Rightarrow> 50 | Some v \<Rightarrow> v);
          path = ''/api/reports?limit='' @ ns l
      in (debug_log this ''[OptimizationClient] Listing reports'' [] @ [Get path],
          (case get_reports net (transport this) path of
             Inl e \<Rightarrow> Inl e
           | Inr response \<Rightarrow> Inr (reports response))))"

section \<open>Number formatting\<close>

text \<open>The decimal digits of a natural number.\<close>

definition digits :: string where
  "digits = ''0123456789''"

fun decimal :: "nat \<Rightarrow> string" where
  "decimal n = (if 10 \<le> n then decimal (n div 10) else []) @ [digits ! (n mod 10)]"

declare decimal.simps [simp del]

text \<open>
  \<open>Number.prototype.toFixed(f)\<close> on a finite double, step by step as ECMAScript
  defines it on the double's exact value: the sign first, then the integer \<open>n\<close>
  nearest to \<open>x * 10^f\<close> (the larger one on a tie), its digits padded with zeros to
  \<open>f + 1\<close> places, and the point before the last \<open>f\<close> digits. From \<open>10^21\<close> on the
  result is that of \<open>Number::toString\<close>.
\<close>

definition fixed :: "(rat \<Rightarrow> string) \<Rightarrow> nat \<Rightarrow> rat \<Rightarrow> string" where
  "fixed ns f x =
     (let s = (if x < 0 then ''-'' else []); y = \<bar>x\<bar>
      in s @ (if 10 ^ 21 \<le> y then ns y
              else (let n = nat \<lfloor>y * 10 ^ f + 1 / 2\<rfloor>; m = decimal n
                    in if f = 0 then m
                       else (let m0 = replicate (f + 1 - length m) (CHR ''0'') @ m;
                                 k = length m0
                             in take (k - f) m0 @ ''.'' @ drop (k - f) m0))))"

text \<open>\<open>toFixed\<close> on any number: a number that is not finite is rendered by name.\<close>

fun toFixed :: "(rat \<Rightarrow> string) \<Rightarrow> nat \<Rightarrow> number \<Rightarrow> string" where
  "toFixed ns f NaN = ''NaN''"
| "toFixed ns f PosInf = ''Infinity''"
| "toFixed ns f NegInf = ''-Infinity''"
| "toFixed ns f (Finite x) = fixed ns f x"

text \<open>
  \<open>(v / d).toFixed(f)\<close> where the property \<open>v\<close> may be \<open>undefined\<close>: the number is
  read, divided as doubles are, and the rounded quotient rendered.
\<close>

definition quotient_toFixed :: "(rat \<Rightarrow> string) \<Rightarrow> nat \<Rightarrow> rat option \<Rightarrow> rat \<Rightarrow> string" where
  "quotient_toFixed ns f v d = toFixed ns f (js_divide (to_number v) d)"

section \<open>Adapter (mcp/server.ts): formatting\<close>

definition newline :: string where
  "newline = [CHR 0x0A]"

text \<open>The arrow U+2192 of the route lines, in UTF-8.\<close>

definition arrow :: string where
  "arrow = [CHR 0xE2, CHR 0x86, CHR 0x92]"

text \<open>
  The three lines that both solve formatters push when \<open>result.report_id\<close> is truthy,
  that is, present and not the empty string; \<open>hint\<close> is the text before the address.
\<close>

definition report_lines :: "string \<Rightarrow> string \<Rightarrow> string option \<Rightarrow> string list" where
  "report_lines hint SERVER_URL rid =
     (case rid of
        None \<Rightarrow> []
      | Some r \<Rightarrow>
          if r \<noteq> [] then
            [[], ''**Report ID:** '' @ r, hint @ SERVER_URL @ ''/api/reports/'' @ r]
          else [])"

text \<open>The array \<open>lines\<close> of \<open>formatSolveResponse\<close> as it stands before the final join.\<close>

definition solve_lines ::
  "(rat \<Rightarrow> string) \<Rightarrow> string \<Rightarrow> lp_solution SolveResponse \<Rightarrow> string \<Rightarrow> string list" where
  "solve_lines ns SERVER_URL result problemType =
     [''## '' @ problemType @ '' Solution'',
      [],
      ''**Status:** '' @ status result,
      ''**Objective Value:** '' @
         (case objective_value result of None \<Rightarrow> ''undefined'' | Some v \<Rightarrow> ns v),
      [],
      ''### Solution Values:'']
     @ (case solution result of
          None \<Rightarrow> []
        | Some entries \<Rightarrow>
            map (\<lambda>(name, value). ''- '' @ name @ '' = '' @ toString ns value) entries)
     @ [[],
        ''**Solve Time:** '' @
           (case execution_time_ms result of
              None \<Rightarrow> ''undefined''
            | Some t \<Rightarrow> toFixed ns 2 (to_double t)) @ ''ms'',
        ''**Solver:** '' @
           (let solver = (case solver_info result of
                            None \<Rightarrow> None
                          | Some info \<Rightarrow> property info ''solver'')
            in if truthy solver then template ns solver else ''OR-Tools'')]
     @ report_lines ''View the full report at: '' SERVER_URL (report_id result)"

definition formatSolveResponse ::
  "(rat \<Rightarrow> string) \<Rightarrow> string \<Rightarrow> lp_solution SolveResponse \<Rightarrow> string \<Rightarrow> string" where
  "formatSolveResponse ns SERVER_URL result problemType =
     join newline (solve_lines ns SERVER_URL result problemType)"

text \<open>The array \<open>lines\<close> of \<open>formatTspResponse\<close> before the final join.\<close>

definition tsp_lines ::
  "(rat \<Rightarrow> string) \<Rightarrow> string \<Rightarrow> tsp_solution SolveResponse \<Rightarrow> string list" where
  "tsp_lines ns SERVER_URL result =
     [''## Traveling Salesman Solution'',
      [],
      ''**Status:** '' @ status result,
      ''**Total Distance:** '' @ quotient_toFixed ns 2 (objective_value result) 1000 @ '' km'',
      [],
      ''### Optimal Route:'']
     @ (case solution result of
          None \<Rightarrow> []
        | Some s \<Rightarrow>
            (case route_names s of
               None \<Rightarrow> []
             | Some route \<Rightarrow> [join ('' '' @ arrow @ '' '') route]))
     @ (case solution result of
          None \<Rightarrow> []
        | Some s \<Rightarrow>
            (case segments s of
               None \<Rightarrow> []
             | Some segs \<Rightarrow>
                 [[], ''### Route Segments:'']
                 @ map (\<lambda>seg. ''- '' @ from_name seg @ '' '' @ arrow @ '' '' @ to_name seg
                                @ '': '' @ toFixed ns 2 (js_divide (to_double (distance seg)) 1000)
                                @ '' km'') segs))
     @ [[],
        ''**Solve Time:** '' @ quotient_toFixed ns 1 (execution_time_ms result) 1000 @ ''s'']
     @ report_lines ''View the route map at: '' SERVER_URL (report_id result)"

definition formatTspResponse ::
  "(rat \<Rightarrow> string) \<Rightarrow> string \<Rightarrow> tsp_solution SolveResponse \<Rightarrow> string" where
  "formatTspResponse ns SERVER_URL result = join newline (tsp_lines ns SERVER_URL result)"

text \<open>One itemised block of \<open>formatAnalysisResponse\<close>: nothing for an empty list.\<close>

definition itemized :: "string \<Rightarrow> string list \<Rightarrow> string list" where
  "itemized heading items =
     (if items \<noteq> [] then heading # map (\<lambda>v. ''- '' @ v) items else [])"

definition formatAnalysisResponse :: "AnalysisResponse \<Rightarrow> string" where
  "formatAnalysisResponse result =
     join newline
       ([''## Problem Analysis'',
         [],
         ''**Problem Type:** '' @ problem_type result,
         ''**Confidence:** '' @ confidence result,
         []]
        @ (if variables_detected result \<noteq> []
           then itemized ''### Detected Variables:'' (variables_detected result) @ [[]] else [])
        @ (if constraints_detected result \<noteq> []
           then itemized ''### Detected Constraints:'' (constraints_detected result) @ [[]] else [])
        @ itemized ''### Recommendations:'' (recommendations result))"

section \<open>Adapter (mcp/server.ts): configuration and dispatch\<close>

text \<open>The two environment variables the module reads; \<open>None\<close> when a variable is unset.\<close>

record environment =
  OPT_TOOLS_SERVER_URL :: "string option"
  OPT_TOOLS_API_KEY :: "string option"

text \<open>\<open>process.env.X || d\<close>: an unset or empty variable gives the default.\<close>

definition env_or :: "string option \<Rightarrow> string \<Rightarrow> string" where
  "env_or v d = (case v of None \<Rightarrow> d | Some s \<Rightarrow> if s \<noteq> [] then s else d)"

definition SERVER_URL :: "environment \<Rightarrow> string" where
  "SERVER_URL env = env_or (OPT_TOOLS_SERVER_URL env) ''http://164.92.92.181''"

definition API_KEY :: "environment \<Rightarrow> string" where
  "API_KEY env = env_or (OPT_TOOLS_API_KEY env) ''demo_key''"

definition client :: "environment \<Rightarrow> OptimizationClient" where
  "client env =
     new_OptimizationClient
       \<lparr> serverUrl = SERVER_URL env, apiKey = API_KEY env,
         timeout = Given 120000, retries = Given 2, debug = Omitted \<rparr>"

text \<open>The result of a tool call: content blocks of type \<open>text\<close> and the optional error flag.\<close>

datatype content_block = TextContent string

record CallToolResult =
  content :: "content_block list"
  isError :: "bool option"

text \<open>
  What a \<open>throw\<close> or a rejected promise carries: an instance of \<open>Error\<close> with its
  message (an error of the HTTP library is one), or any other value.
\<close>

datatype thrown = Error string | Thrown "json option"

text \<open>The \<open>catch\<close> block of the handler.\<close>

definition caught :: "(rat \<Rightarrow> string) \<Rightarrow> thrown \<Rightarrow> CallToolResult" where
  "caught ns error =
     (let message = (case error of Error m \<Rightarrow> m | Thrown v \<Rightarrow> template ns v)
      in \<lparr> content = [TextContent (''Error: '' @ message)], isError = Some True \<rparr>)"

text \<open>A successful return of the handler: one text block, no error flag.\<close>

definition text_result :: "string \<Rightarrow> CallToolResult" where
  "text_result t = \<lparr> content = [TextContent t], isError = None \<rparr>"

text \<open>
  The object literals that the cases \<open>solve_lp\<close> and \<open>solve_mip\<close> (the same literal)
  and \<open>solve_tsp\<close> build from the arguments.
\<close>

definition lp_problem_literal :: "(string \<times> json) list \<Rightarrow> LpProblem" where
  "lp_problem_literal args =
     \<lparr> variables = property args ''variables'',
       objective = property args ''objective'',
       constraints = (if truthy (property args ''constraints'')
                      then property args ''constraints'' else Some (JArr [])),
       lp_timeout = None,
       generate_report = Some (property args ''generate_report'' \<noteq> Some (JBool False)) \<rparr>"

definition tsp_problem_literal :: "(string \<times> json) list \<Rightarrow> TspProblem" where
  "tsp_problem_literal args =
     \<lparr> locations = property args ''locations'',
       start_location = property args ''start_location'',
       tsp_timeout = None,
       tsp_generate_report = Some (property args ''generate_report'' \<noteq> Some (JBool False)) \<rparr>"

text \<open>
  The \<open>try\<close> block around one awaited client call: a rejection goes to the \<open>catch\<close>
  block, a payload through the formatter into a text block.
\<close>

definition try_call ::
  "(rat \<Rightarrow> string) \<Rightarrow> effect list \<times> (thrown + 'r) \<Rightarrow> ('r \<Rightarrow> string)
    \<Rightarrow> effect list \<times> CallToolResult" where
  "try_call ns call format =
     (fst call,
      (case snd call of
         Inl error \<Rightarrow> caught ns error
       | Inr result \<Rightarrow> text_result (format result)))"

text \<open>
  The handler of \<open>CallToolRequestSchema\<close>: \<open>name\<close> and \<open>arguments\<close> of the request's
  parameters, \<open>arguments\<close> being an object or \<open>undefined\<close>.
\<close>

definition CallTool_handler ::
  "(rat \<Rightarrow> string) \<Rightarrow> environment \<Rightarrow> (thrown, 'm) network \<Rightarrow> string
    \<Rightarrow> (string \<times> json) list option \<Rightarrow> effect list \<times> CallToolResult" where
  "CallTool_handler ns env net name arguments =
     (case arguments of
        None \<Rightarrow>
          ([], \<lparr> content = [TextContent ''Error: No arguments provided''],
                 isError = Some True \<rparr>)
      | Some args \<Rightarrow>
          if name = ''solve_lp'' then
            try_call ns (solveLp net (client env) (lp_problem_literal args))
              (\<lambda>result. formatSolveResponse ns (SERVER_URL env) result ''Linear Programming'')
          else if name = ''solve_mip'' then
            try_call ns (solveMip net (client env) (lp_problem_literal args))
              (\<lambda>result. formatSolveResponse ns (SERVER_URL env) result
                           ''Mixed-Integer Programming'')
          else if name = ''solve_tsp'' then
            try_call ns (solveTsp net (client env) (tsp_problem_literal args))
              (\<lambda>result. formatTspResponse ns (SERVER_URL env) result)
          else if name = ''analyze_problem'' then
            try_call ns (analyzeProblem net (client env) (property args ''description''))
              formatAnalysisResponse
          else if name = ''get_report'' then
            (let reportId = property args ''report_id''
             in try_call ns (getReport ns net (client env) reportId)
                  (\<lambda>html. ''HTML Report ('' @ ns (of_nat (js_length html)) @ '' characters):''
                             @ newline @ newline
                             @ ''The report has been retrieved. To view it, save the content to an HTML file and open in a browser.''
                             @ newline @ newline
                             @ ''Report ID: '' @ template ns reportId))
          else ([], caught ns (Error (''Unknown tool: '' @ name))))"

text \<open>The calls of the transport among the effects of an operation.\<close>

fun is_request :: "effect \<Rightarrow> bool" where
  "is_request (Console msg vs) = False"
| "is_request (Post path b) = True"
| "is_request (Get path) = True"

text \<open>A line that opens like one of the report hints of the two solve formatters.\<close>

definition is_hint_line :: "string \<Rightarrow> bool" where
  "is_hint_line l =
     (prefix ''**Report ID:**'' l
      \<or> prefix ''View the full report at:'' l
      \<or> prefix ''View the route map at:'' l)"

text \<open>The \<open>generate_report\<close> property of a request body.\<close>

fun body_generate_report :: "body \<Rightarrow> bool option" where
  "body_generate_report (ProblemBody p) = generate_report p"
| "body_generate_report (TspBody p) = tsp_generate_report p"
| "body_generate_report (DescriptionBody d) = None"

section \<open>Transport (transport/http.ts): the retry policy\<close>

text \<open>The transport issues \<open>GET\<close> and \<open>POST\<close> requests only.\<close>

datatype http_method = GET | POST

text \<open>
  The error of a failed attempt, as the retry condition and the library see it:
  \<open>error.config.method\<close>, \<open>error.response?.status\<close> (\<open>None\<close> when no response was
  received) and \<open>error.code\<close>, the code of the failure: \<open>ECONNABORTED\<close> for a request
  that ran into the timeout, a system code such as \<open>ECONNREFUSED\<close>, \<open>ECONNRESET\<close> or
  \<open>ENOTFOUND\<close> for a network failure. The transport never cancels a request, so the
  code of a cancellation is not treated apart.
\<close>

record AxiosError =
  request_method :: http_method
  response_status :: "nat option"
  code :: "string option"
  message :: string

text \<open>
  The \<open>retryCondition\<close> passed to \<open>axiosRetry\<close>. The library's predicate that it calls
  first is the parameter.
\<close>

definition retryCondition :: "(AxiosError \<Rightarrow> bool) \<Rightarrow> AxiosError \<Rightarrow> bool" where
  "retryCondition libraryCondition error =
     (libraryCondition error
      \<or> response_status error = Some 429
      \<or> response_status error = Some 503)"

text \<open>
  The predicates of the package axios-retry. The package is a dependency and not
  under src/; the predicates are given as the package defines them.
  \<^item> \<open>isNetworkError\<close>: no response, a code, the code not that of a timeout, and the
    error not refused by \<open>isRetryAllowed\<close> of the package is-retry-allowed, which keeps a
    fixed list of codes that must not be retried (\<open>ENOTFOUND\<close> and \<open>ENETUNREACH\<close>,
    certificate errors); \<open>denied\<close> says whether a code is on that list.
  \<^item> \<open>isRetryableError\<close>: not a timeout, and no response or a status of 429 or 5xx.
  \<^item> \<open>isIdempotentRequestError\<close>: a retryable error on a request whose method is one
    of \<open>get\<close>, \<open>head\<close>, \<open>options\<close>, \<open>put\<close>, \<open>delete\<close>; of the transport's two
    methods that is \<open>GET\<close>.
\<close>

fun idempotent :: "http_method \<Rightarrow> bool" where
  "idempotent GET = True"
| "idempotent POST = False"

definition isNetworkError :: "(string \<Rightarrow> bool) \<Rightarrow> AxiosError \<Rightarrow> bool" where
  "isNetworkError denied error =
     (response_status error = None
      \<and> (case code error of
            None \<Rightarrow> False
          | Some c \<Rightarrow> c \<noteq> [] \<and> c \<noteq> ''ECONNABORTED'' \<and> \<not> denied c))"

definition isRetryableError :: "AxiosError \<Rightarrow> bool" where
  "isRetryableError error =
     (code error \<noteq> Some ''ECONNABORTED''
      \<and> (case response_status error of
            None \<Rightarrow> True
          | Some s \<Rightarrow> s = 429 \<or> 500 \<le> s \<and> s \<le> 599))"

definition isIdempotentRequestError :: "AxiosError \<Rightarrow> bool" where
  "isIdempotentRequestError error =
     (isRetryableError error \<and> idempotent (request_method error))"

definition isNetworkOrIdempotentRequestError :: "(string \<Rightarrow> bool) \<Rightarrow> AxiosError \<Rightarrow> bool" where
  "isNetworkOrIdempotentRequestError denied error =
     (isNetworkError denied error \<or> isIdempotentRequestError error)"

text \<open>
  The package's interceptor, which re-issues a failed request: another attempt follows
  when fewer than \<open>retries\<close> retries have been made and the retry condition accepts the
  failure; otherwise the failure goes to the caller. \<open>remote i\<close> is the outcome of
  attempt \<open>i\<close>, \<open>left\<close> the retries not yet made; the result is the number of requests
  issued and what the caller gets.
\<close>

fun request_with_retry ::
  "(AxiosError \<Rightarrow> bool) \<Rightarrow> (nat \<Rightarrow> AxiosError + 'r) \<Rightarrow> nat \<Rightarrow> nat
    \<Rightarrow> nat \<times> (AxiosError + 'r)" where
  "request_with_retry cond remote 0 i = (Suc i, remote i)"
| "request_with_retry cond remote (Suc left) i =
     (case remote i of
        Inr data \<Rightarrow> (Suc i, Inr data)
      | Inl error \<Rightarrow>
          if cond error then request_with_retry cond remote left (Suc i)
          else (Suc i, Inl error))"

text \<open>The two network codes on the list of is-retry-allowed.\<close>

definition unreachable_code :: "string \<Rightarrow> bool" where
  "unreachable_code c = (c = ''ENOTFOUND'' \<or> c = ''ENETUNREACH'')"

section \<open>Example data\<close>

text \<open>
  \<open>Number::toString\<close> on the integers below \<open>10^21\<close>, where it is the decimal digits
  after the sign; the renderer of the examples.
\<close>

definition integer_toString :: "rat \<Rightarrow> string" where
  "integer_toString x = (if x < 0 then ''-'' else []) @ decimal (nat \<lfloor>\<bar>x\<bar>\<rfloor>)"

text \<open>The client of the development notes, with every optional property left out.\<close>

definition local_client :: OptimizationClient where
  "local_client =
     new_OptimizationClient
       \<lparr> serverUrl = ''http://localhost:8000'', apiKey = ''test_key'',
         timeout = Omitted, retries = Omitted, debug = Omitted \<rparr>"

text \<open>
  The scenario of the spec (8): maximize \<open>3*x+2*y\<close> subject to \<open>x+y<=10\<close>, passed to
  \<open>solveLp\<close> by a direct caller that leaves the optional properties out, against a stub
  that answers \<open>{status: "OPTIMAL", objective_value: 20, solution: {x: 0, y: 10}}\<close>.
\<close>

definition scenario_problem :: LpProblem where
  "scenario_problem =
     \<lparr> variables = Some (JArr [JObj [(''name'', JStr ''x''), (''type'', JStr ''continuous'')],
                               JObj [(''name'', JStr ''y''), (''type'', JStr ''continuous'')]]),
       objective = Some (JObj [(''sense'', JStr ''maximize''), (''expression'', JStr ''3*x+2*y'')]),
       constraints = Some (JArr [JObj [(''expression'', JStr ''x+y<=10'')]]),
       lp_timeout = None,
       generate_report = None \<rparr>"

definition scenario_payload :: "lp_solution SolveResponse" where
  "scenario_payload =
     \<lparr> status = ''OPTIMAL'', objective_value = Some 20,
       solution = Some [(''x'', JNum 0), (''y'', JNum 10)],
       report_id = None, execution_time_ms = None, solver_info = None \<rparr>"

text \<open>
  A stub remote: it answers every solve request with \<open>answer\<close>, a listing with the
  envelope of \<open>listing\<close>, and fails everything else with \<open>failure\<close>.
\<close>

definition stub ::
  "'e + lp_solution SolveResponse \<Rightarrow> 'm list \<Rightarrow> 'e \<Rightarrow> ('e, 'm) network" where
  "stub answer listing failure =
     \<lparr> post_solve = (\<lambda>t path b. answer),
       post_tsp = (\<lambda>t path b. Inl failure),
       post_analyze = (\<lambda>t path b. Inl failure),
       get_text = (\<lambda>t path. Inl failure),
       get_reports = (\<lambda>t path. Inr \<lparr> reports = listing, total = of_nat (length listing) \<rparr>) \<rparr>"

text \<open>A tour of 15 km over two segments, with a report.\<close>

definition example_tour :: "tsp_solution SolveResponse" where
  "example_tour =
     \<lparr> status = ''OPTIMAL'', objective_value = Some 15000,
       solution = Some \<lparr> route_names = Some [''Depot'', ''Mill'', ''Depot''],
                         segments = Some [\<lparr> from_name = ''Depot'', to_name = ''Mill'', distance = 7250 \<rparr>,
                                          \<lparr> from_name = ''Mill'', to_name = ''Depot'', distance = 7750 \<rparr>] \<rparr>,
       report_id = Some ''r-17'', execution_time_ms = Some 1234, solver_info = None \<rparr>"

section \<open>Auxiliary facts\<close>

lemma requests_debug_log: "filter is_request (debug_log this msg vs) = []"
  by (simp add: debug_log_def)

lemma client_debug_off: "debug_log (client env) msg vs = []"
  by (simp add: debug_log_def client_def new_OptimizationClient_def Let_def)

lemma try_call_shape:
  "(\<exists>t. snd (try_call ns call format) = text_result t)
   \<or> (\<exists>m. snd (try_call ns call format)
          = \<lparr> content = [TextContent (''Error: '' @ m)], isError = Some True \<rparr>)"
proof (cases "snd call")
  case (Inl error)
  then have "snd (try_call ns call format) = caught ns error"
    by (simp add: try_call_def)
  then show ?thesis
    by (auto simp add: caught_def)
next
  case (Inr result)
  then have "snd (try_call ns call format) = text_result (format result)"
    by (simp add: try_call_def)
  then show ?thesis
    by blast
qed

lemma unknown_tool_shape:
  "snd ([] :: effect list, caught ns (Error (''Unknown tool: '' @ name)))
     = \<lparr> content = [TextContent (''Error: '' @ (''Unknown tool: '' @ name))], isError = Some True \<rparr>"
  by (simp add: caught_def)

lemma handler_shape:
  "(\<exists>t. snd (CallTool_handler ns env net name arguments) = text_result t)
   \<or> (\<exists>m. snd (CallTool_handler ns env net name arguments)
          = \<lparr> content = [TextContent (''Error: '' @ m)], isError = Some True \<rparr>)"
proof (cases arguments)
  case None
  have "snd (CallTool_handler ns env net name None)
          = \<lparr> content = [TextContent (''Error: '' @ ''No arguments provided'')], isError = Some True \<rparr>"
    by (simp add: CallTool_handler_def)
  with None show ?thesis
    by blast
next
  case (Some args)
  show ?thesis
    unfolding Some CallTool_handler_def Let_def option.case
    apply (simp only: split: if_split)
    apply (intro conjI impI try_call_shape)
    apply (rule disjI2)
    apply (rule exI)
    apply (rule unknown_tool_shape)
    done
qed

lemma text_result_fields:
  "content (text_result t) = [TextContent t]" "isError (text_result t) = None"
  by (simp_all add: text_result_def)

lemma handler_unknown_tool:
  assumes "name \<notin> {''solve_lp'', ''solve_mip'', ''solve_tsp'', ''analyze_problem'', ''get_report''}"
  shows "snd (CallTool_handler ns env net name arguments)
     = \<lparr> content = [TextContent (''Error: '' @
            (case arguments of None \<Rightarrow> ''No arguments provided''
             | Some args \<Rightarrow> ''Unknown tool: '' @ name))],
         isError = Some True \<rparr>"
  using assms by (cases arguments) (simp_all add: CallTool_handler_def caught_def)

lemma handler_failure:
  "post_solve net (transport (client env)) ''/api/solve/lp'' (lp_problem_literal args) = Inl error
     \<Longrightarrow> snd (CallTool_handler ns env net ''solve_lp'' (Some args)) = caught ns error"
  "post_solve net (transport (client env)) ''/api/solve/mip'' (lp_problem_literal args) = Inl error
     \<Longrightarrow> snd (CallTool_handler ns env net ''solve_mip'' (Some args)) = caught ns error"
  "post_tsp net (transport (client env)) ''/api/solve/tsp'' (tsp_problem_literal args) = Inl error
     \<Longrightarrow> snd (CallTool_handler ns env net ''solve_tsp'' (Some args)) = caught ns error"
  "post_analyze net (transport (client env)) ''/api/analyze'' (property args ''description'') = Inl error
     \<Longrightarrow> snd (CallTool_handler ns env net ''analyze_problem'' (Some args)) = caught ns error"
  "get_text net (transport (client env)) (''/api/reports/'' @ template ns (property args ''report_id'')) = Inl error
     \<Longrightarrow> snd (CallTool_handler ns env net ''get_report'' (Some args)) = caught ns error"
  by (simp_all add: CallTool_handler_def try_call_def solveLp_def solveMip_def solveTsp_def
      analyzeProblem_def getReport_def Let_def)

lemma digit_in_digits: "digits ! (n mod 10) \<in> set digits"
  by (rule nth_mem) (simp add: digits_def)

lemma decimal_digits: "set (decimal n) \<subseteq> set digits"
proof (induction n rule: decimal.induct)
  case (1 n)
  show ?case
  proof (cases "10 \<le> n")
    case True
    with "1" digit_in_digits [of n] show ?thesis
      by (subst decimal.simps) simp
  next
    case False
    with digit_in_digits [of n] show ?thesis
      by (subst decimal.simps) simp
  qed
qed

lemma length_two: "length xs = 2 \<Longrightarrow> \<exists>a b. xs = [a, b]"
  by (auto simp add: length_Suc_conv numeral_2_eq_2)

lemma tsp_route_line:
  "solution result = Some s \<Longrightarrow> route_names s = Some route \<Longrightarrow>
   tsp_lines ns url result ! 6 = join ('' '' @ arrow @ '' '') route"
  by (simp add: tsp_lines_def)

lemma solve_lines_split:
  "solve_lines ns url result pt
     = solve_lines ns url (result\<lparr>report_id := None\<rparr>) pt
       @ report_lines ''View the full report at: '' url (report_id result)"
  by (simp add: solve_lines_def report_lines_def)

lemma tsp_lines_split:
  "tsp_lines ns url result
     = tsp_lines ns url (result\<lparr>report_id := None\<rparr>)
       @ report_lines ''View the route map at: '' url (report_id result)"
  by (simp add: tsp_lines_def report_lines_def)

lemma solve_body_no_hint:
  "l \<in> set (solve_lines ns url (result\<lparr>report_id := None\<rparr>) pt) \<Longrightarrow> \<not> is_hint_line l"
  by (auto simp add: solve_lines_def report_lines_def is_hint_line_def split: option.splits)

lemma request_count: "i < fst (request_with_retry cond remote left i)"
proof (induction left arbitrary: i)
  case 0
  show ?case by simp
next
  case (Suc left)
  show ?case
    using Suc.IH [of "Suc i"] by (auto split: sum.splits intro: Suc_lessD)
qed

lemma no_retry_one_request:
  "remote 0 = Inl error \<Longrightarrow> \<not> cond error \<Longrightarrow>
   request_with_retry cond remote n 0 = (1, Inl error)"
  by (cases n) simp_all

lemma fixed_two_decimals:
  assumes "\<bar>x\<bar> < 10 ^ 21"
  shows "\<exists>whole d1 d2. fixed ns 2 x = (if x < 0 then ''-'' else []) @ whole @ ''.'' @ [d1, d2]
           \<and> whole \<noteq> [] \<and> set (whole @ [d1, d2]) \<subseteq> set digits"
proof -
  define m where "m = decimal (nat \<lfloor>\<bar>x\<bar> * 10 ^ 2 + 1 / 2\<rfloor>)"
  define m0 where "m0 = replicate (3 - length m) (CHR ''0'') @ m"
  have zero: "CHR ''0'' \<in> set digits"
    by (simp add: digits_def)
  have len: "3 \<le> length m0"
    by (simp add: m0_def)
  have digs: "set m0 \<subseteq> set digits"
    using decimal_digits [of "nat \<lfloor>\<bar>x\<bar> * 10 ^ 2 + 1 / 2\<rfloor>"] zero
    by (auto simp add: m0_def m_def)
  have eq: "fixed ns 2 x
      = (if x < 0 then ''-'' else []) @ take (length m0 - 2) m0 @ ''.'' @ drop (length m0 - 2) m0"
    using assms by (simp add: fixed_def Let_def m0_def m_def)
  have "length (drop (length m0 - 2) m0) = 2"
    using len by simp
  then obtain d1 d2 where d: "drop (length m0 - 2) m0 = [d1, d2]"
    using length_two by blast
  have w: "take (length m0 - 2) m0 \<noteq> []"
    using len by auto
  have "set (take (length m0 - 2) m0 @ [d1, d2]) = set m0"
    using d by (metis append_take_drop_id)
  with digs d w eq show ?thesis
    by (metis (no_types, lifting))
qed

lemma tsp_distance_line:
  "objective_value result = Some v \<Longrightarrow>
   tsp_lines ns url result ! 3
     = ''**Total Distance:** '' @ toFixed ns 2 (js_divide (to_double v) 1000) @ '' km''"
  by (simp add: tsp_lines_def quotient_toFixed_def to_number_def)

lemma tsp_segment_lines:
  "solution result = Some s \<Longrightarrow> segments s = Some segs \<Longrightarrow>
   \<exists>before after. tsp_lines ns url result
      = before @ [[], ''### Route Segments:'']
        @ map (\<lambda>seg. ''- '' @ from_name seg @ '' '' @ arrow @ '' '' @ to_name seg
                       @ '': '' @ toFixed ns 2 (js_divide (to_double (distance seg)) 1000)
                       @ '' km'') segs
        @ after"
  unfolding tsp_lines_def
  apply (simp only: option.case)
  apply (rule exI [where x = "[''## Traveling Salesman Solution'',
      [],
      ''**Status:** '' @ status result,
      ''**Total Distance:** '' @ quotient_toFixed ns 2 (objective_value result) 1000 @ '' km'',
      [],
      ''### Optimal Route:'']
     @ (case route_names s of
               None \<Rightarrow> []
             | Some route \<Rightarrow> [join ('' '' @ arrow @ '' '') route])"])
  apply (rule exI [where x = "[[],
        ''**Solve Time:** '' @ quotient_toFixed ns 1 (execution_time_ms result) 1000 @ ''s'']
     @ report_lines ''View the route map at: '' url (report_id result)"])
  apply (simp only: append_assoc)
  done

lemma pow2_powi: "pow2 e = 2 powi e"
  by (simp add: pow2_def power_int_def inverse_eq_divide power_one_over)

lemma pow2_pos: "0 < pow2 e"
  by (simp add: pow2_def)

lemma floor_log2_bounds:
  "0 < n \<Longrightarrow> 0 \<le> floor_log2 n \<and> 2 ^ nat (floor_log2 n) \<le> n \<and> n < 2 * 2 ^ nat (floor_log2 n)"
proof (induction n rule: floor_log2.induct)
  case (1 n)
  show ?case
  proof (cases "n < 2")
    case True
    with "1.prems" have "n = 1" by simp
    then show ?thesis
      by (subst floor_log2.simps, subst (2) floor_log2.simps, subst (3) floor_log2.simps) simp
  next
    case False
    then have pos: "0 < n div 2" by simp
    from "1.IH" [OF False pos] have
      ih: "0 \<le> floor_log2 (n div 2)" "2 ^ nat (floor_log2 (n div 2)) \<le> n div 2"
          "n div 2 < 2 * 2 ^ nat (floor_log2 (n div 2))"
      by simp_all
    have eq: "floor_log2 n = floor_log2 (n div 2) + 1"
      using False by (subst floor_log2.simps) simp
    have nat_eq: "nat (floor_log2 (n div 2) + 1) = Suc (nat (floor_log2 (n div 2)))"
      using ih(1) by simp
    have lo: "2 * 2 ^ nat (floor_log2 (n div 2)) \<le> n"
      using ih(2) by linarith
    have hi: "n < 2 * (2 * 2 ^ nat (floor_log2 (n div 2)))"
      using ih(3) by linarith
    show ?thesis
      using ih(1) lo hi by (simp add: eq nat_eq)
  qed
qed

lemma binary_exponent_le:
  assumes "0 < x"
  shows "pow2 (binary_exponent x) \<le> x"
proof -
  obtain p q where pq: "quotient_of x = (p, q)"
    by (cases "quotient_of x")
  then have q: "0 < q" and x: "x = of_int p / of_int q"
    using quotient_of_denom_pos [of x p q] quotient_of_div [of x p q] by simp_all
  with assms have p: "0 < p"
    by (simp add: zero_less_divide_iff)
  define a where "a = floor_log2 p"
  define b where "b = floor_log2 q"
  have A: "0 \<le> a" "2 ^ nat a \<le> p"
    using floor_log2_bounds [OF p] by (simp_all add: a_def)
  have B: "0 \<le> b" "q < 2 * 2 ^ nat b"
    using floor_log2_bounds [OF q] by (simp_all add: b_def)
  have e: "binary_exponent x = (if pow2 (a - b) \<le> x then a - b else a - b - 1)"
    by (simp add: binary_exponent_def pq a_def b_def Let_def)
  show ?thesis
  proof (cases "pow2 (a - b) \<le> x")
    case True
    then show ?thesis by (simp add: e)
  next
    case False
    have "pow2 (a - b - 1) = 2 powi a / (2 * 2 powi b)"
      by (simp add: pow2_powi power_int_diff)
    also have "\<dots> = 2 ^ nat a / (2 * 2 ^ nat b)"
      using A(1) B(1) by (simp add: power_int_def)
    also have "\<dots> \<le> of_int p / of_int q"
    proof -
      have 1: "(2 :: rat) ^ nat a \<le> of_int p"
        using A(2) by (metis of_int_le_iff of_int_numeral of_int_power)
      have 2: "(of_int q :: rat) \<le> 2 * 2 ^ nat b"
        using B(2) by (metis less_imp_le of_int_le_iff of_int_numeral of_int_power of_int_mult)
      have 3: "(0 :: rat) < of_int q"
        using q by simp
      have 4: "(0 :: rat) \<le> of_int p"
        using p by simp
      from 4 1 3 2 show ?thesis
        by (rule frac_le)
    qed
    finally have "pow2 (a - b - 1) \<le> x"
      unfolding x [symmetric] .
    with False show ?thesis
      by (simp add: e)
  qed
qed

lemma round_half_even_bounds:
  assumes "0 \<le> m"
  shows "0 \<le> round_half_even m \<and> of_int (round_half_even m) \<le> m + 1"
proof -
  have f: "0 \<le> \<lfloor>m\<rfloor>"
    using assms by simp
  have cases: "round_half_even m = \<lfloor>m\<rfloor> \<or> round_half_even m = \<lfloor>m\<rfloor> + 1"
    by (simp add: round_half_even_def Let_def)
  then have lo: "0 \<le> round_half_even m"
    using f by auto
  from cases have "round_half_even m \<le> \<lfloor>m\<rfloor> + 1"
    by auto
  then have "(of_int (round_half_even m) :: rat) \<le> of_int (\<lfloor>m\<rfloor> + 1)"
    by (simp only: of_int_le_iff)
  also have "\<dots> = of_int \<lfloor>m\<rfloor> + 1"
    by simp
  also have "\<dots> \<le> m + 1"
    by simp
  finally show ?thesis
    using lo by simp
qed

lemma pow2_minus_52: "pow2 (e - 52) \<le> pow2 e"
proof -
  have "pow2 (e - 52) = pow2 e / 2 ^ 52"
    by (simp add: pow2_powi power_int_diff)
  also have "\<dots> \<le> pow2 e"
    using pow2_pos [of e] by (simp add: divide_le_eq)
  finally show ?thesis .
qed

lemma to_double_finite:
  assumes "\<bar>x\<bar> < 2 ^ 1000"
  shows "\<exists>m. to_double x = Finite m \<and> \<bar>m\<bar> \<le> 2 * \<bar>x\<bar> + 1"
proof (cases "x = 0")
  case True
  then show ?thesis by (simp add: to_double_def)
next
  case False
  define a where "a = \<bar>x\<bar>"
  define ulp where "ulp = pow2 (max (binary_exponent a) (- 1022) - 52)"
  define mag where "mag = of_int (round_half_even (a / ulp)) * ulp"
  have a: "0 < a" using False by (simp add: a_def)
  have ulp_pos: "0 < ulp" by (simp add: ulp_def pow2_pos)
  have ulp_le: "ulp \<le> a + 1"
  proof (cases "- 1022 \<le> binary_exponent a")
    case True
    then have "ulp = pow2 (binary_exponent a - 52)"
      by (simp add: ulp_def max_def)
    also have "\<dots> \<le> pow2 (binary_exponent a)"
      by (rule pow2_minus_52)
    also have "\<dots> \<le> a"
      by (rule binary_exponent_le [OF a])
    finally show ?thesis by simp
  next
    case False
    then have "ulp = pow2 (- 1074)"
      by (simp add: ulp_def max_def)
    also have "\<dots> \<le> 1"
      by (simp add: pow2_def)
    finally show ?thesis using a by simp
  qed
  have q: "0 \<le> a / ulp" using a ulp_pos by simp
  from round_half_even_bounds [OF q]
  have r: "0 \<le> round_half_even (a / ulp)" "of_int (round_half_even (a / ulp)) \<le> a / ulp + 1"
    by simp_all
  have mag0: "0 \<le> mag"
    using r(1) ulp_pos by (simp add: mag_def)
  have "mag \<le> (a / ulp + 1) * ulp"
    unfolding mag_def using r(2) ulp_pos by (simp add: mult_right_mono)
  also have "\<dots> = a + ulp"
    using ulp_pos by (simp add: field_simps)
  also have "\<dots> \<le> 2 * a + 1"
    using ulp_le by simp
  finally have mag_le: "mag \<le> 2 * a + 1" .
  have "2 * a + 1 < 2 * 2 ^ 1000 + (1 :: rat)"
    using assms by (simp add: a_def)
  also have "\<dots> < pow2 1024"
    by (simp add: pow2_def)
  finally have no_overflow: "\<not> pow2 1024 \<le> mag"
    using mag_le by simp
  have "to_double x = Finite (if x < 0 then - mag else mag)"
    using False no_overflow
    by (simp add: to_double_def Let_def a_def [symmetric] ulp_def [symmetric] mag_def [symmetric])
  moreover have "\<bar>if x < 0 then - mag else mag\<bar> = mag"
    using mag0 by simp
  ultimately show ?thesis
    using mag_le by (auto simp add: a_def)
qed

lemma kilometres_finite:
  assumes "\<bar>v\<bar> < 10 ^ 23"
  shows "\<exists>q. js_divide (to_double v) 1000 = Finite q \<and> \<bar>q\<bar> < 10 ^ 21"
proof -
  have "\<bar>v\<bar> < 2 ^ 1000"
    using assms by simp
  from to_double_finite [OF this] obtain m where
    m: "to_double v = Finite m" "\<bar>m\<bar> \<le> 2 * \<bar>v\<bar> + 1"
    by blast
  have mb: "\<bar>m\<bar> < 2 * 10 ^ 23 + 1"
    using m(2) assms by simp
  then have "\<bar>m / 1000\<bar> < 2 ^ 1000"
    by simp
  from to_double_finite [OF this] obtain q where
    q: "to_double (m / 1000) = Finite q" "\<bar>q\<bar> \<le> 2 * \<bar>m / 1000\<bar> + 1"
    by blast
  have "\<bar>q\<bar> < 10 ^ 21"
    using q(2) mb by simp
  with q(1) m(1) show ?thesis
    by simp
qed

lemma library_condition_unfolded:
  "isNetworkOrIdempotentRequestError denied error
     = (response_status error = None
          \<and> (\<exists>c. code error = Some c \<and> c \<noteq> [] \<and> c \<noteq> ''ECONNABORTED'' \<and> \<not> denied c)
        \<or> idempotent (request_method error) \<and> code error \<noteq> Some ''ECONNABORTED''
          \<and> (response_status error = None
               \<or> (\<exists>s. response_status error = Some s \<and> (s = 429 \<or> 500 \<le> s \<and> s \<le> 599))))"
  by (auto simp add: isNetworkOrIdempotentRequestError_def isNetworkError_def
      isIdempotentRequestError_def isRetryableError_def split: option.splits)

lemma client_error_not_retried:
  "response_status error = Some s \<Longrightarrow> s < 500 \<Longrightarrow> s \<noteq> 429 \<Longrightarrow>
   \<not> retryCondition (isNetworkOrIdempotentRequestError denied) error"
  by (simp add: retryCondition_def library_condition_unfolded)

lemma post_status_not_retried:
  "response_status error = Some s \<Longrightarrow> request_method error = POST \<Longrightarrow> s \<noteq> 429 \<Longrightarrow> s \<noteq> 503 \<Longrightarrow>
   \<not> retryCondition (isNetworkOrIdempotentRequestError denied) error"
  by (simp add: retryCondition_def library_condition_unfolded)

lemma timeout_not_retried:
  "response_status error = None \<Longrightarrow> code error = Some ''ECONNABORTED'' \<Longrightarrow>
   \<not> retryCondition (isNetworkOrIdempotentRequestError denied) error"
  by (simp add: retryCondition_def library_condition_unfolded)

lemma always_retried:
  "(\<And>j. remote j = Inl (failure j) \<and> cond (failure j)) \<Longrightarrow>
   request_with_retry cond remote left i = (Suc (i + left), Inl (failure (i + left)))"
proof (induction left arbitrary: i)
  case 0
  then show ?case by simp
next
  case (Suc left)
  from Suc.prems have "remote i = Inl (failure i)" "cond (failure i)"
    by simp_all
  then show ?case
    using Suc.IH [of "Suc i"] Suc.prems by simp
qed

section \<open>The client's constructor\<close>

text \<open>
  Claim C9. Whatever configuration the constructor of \<open>OptimizationClient\<close> gets, an
  optional property that is left out takes its default (\<open>timeout\<close> 30000, \<open>retries\<close> 3,
  \<open>debug\<close> false) and a property that is given keeps its value; server address and
  credential are kept, and the transport is built once, from the resulting
  configuration. No operation of the client returns a client, so the configuration
  stays as constructed.
\<close>

theorem constructor_defaults:
  "(timeout cfg = Omitted \<longrightarrow>
      timeout (config (new_OptimizationClient cfg)) = Given 30000
      \<and> axios_timeout (transport (new_OptimizationClient cfg)) = 30000)
   \<and> (retries cfg = Omitted \<longrightarrow>
      retries (config (new_OptimizationClient cfg)) = Given 3
      \<and> axios_retries (transport (new_OptimizationClient cfg)) = 3)
   \<and> (debug cfg = Omitted \<longrightarrow> debug (config (new_OptimizationClient cfg)) = Given False)
   \<and> (\<forall>v. timeout cfg = Given v \<longrightarrow>
      timeout (config (new_OptimizationClient cfg)) = Given v
      \<and> axios_timeout (transport (new_OptimizationClient cfg)) = v)
   \<and> (\<forall>v. retries cfg = Given v \<longrightarrow>
      retries (config (new_OptimizationClient cfg)) = Given v
      \<and> axios_retries (transport (new_OptimizationClient cfg)) = v)
   \<and> (\<forall>v. debug cfg = Given v \<longrightarrow> debug (config (new_OptimizationClient cfg)) = Given v)
   \<and> serverUrl (config (new_OptimizationClient cfg)) = serverUrl cfg
   \<and> apiKey (config (new_OptimizationClient cfg)) = apiKey cfg
   \<and> transport (new_OptimizationClient cfg) =
       new_HttpTransport (serverUrl cfg) (apiKey cfg)
         (read (timeout (config (new_OptimizationClient cfg))))
         (read (retries (config (new_OptimizationClient cfg))))"
  by (simp add: new_OptimizationClient_def new_HttpTransport_def Let_def)

theorem constructor_defaults_witness:
  "timeout (config (new_OptimizationClient
      \<lparr> serverUrl = ''http://localhost:8000'', apiKey = ''test_key'',
        timeout = Omitted, retries = Given 5, debug = Omitted \<rparr>)) = Given 30000
   \<and> retries (config (new_OptimizationClient
      \<lparr> serverUrl = ''http://localhost:8000'', apiKey = ''test_key'',
        timeout = Omitted, retries = Given 5, debug = Omitted \<rparr>)) = Given 5
   \<and> debug (config (new_OptimizationClient
      \<lparr> serverUrl = ''http://localhost:8000'', apiKey = ''test_key'',
        timeout = Omitted, retries = Given 5, debug = Omitted \<rparr>)) = Given False
   \<and> transport (new_OptimizationClient
      \<lparr> serverUrl = ''http://localhost:8000'', apiKey = ''test_key'',
        timeout = Omitted, retries = Given 5, debug = Omitted \<rparr>)
      = \<lparr> baseURL = ''http://localhost:8000'', X_API_Key = ''test_key'',
          axios_timeout = 30000, axios_retries = 5 \<rparr>"
  using constructor_defaults
    [of "\<lparr> serverUrl = ''http://localhost:8000'', apiKey = ''test_key'',
           timeout = Omitted, retries = Given 5, debug = Omitted \<rparr>"]
  by (simp add: new_HttpTransport_def)

section \<open>The client's operations\<close>

text \<open>
  Claim C8. A solve operation returns the payload of the transport as it is, whatever
  the payload, and a failure of the transport reaches the caller as the same error.
\<close>

theorem facade_returns_payload:
  "(post_solve net (transport this) ''/api/solve/lp'' lp = Inr payload
      \<longrightarrow> snd (solveLp net this lp) = Inr payload)
   \<and> (post_solve net (transport this) ''/api/solve/lp'' lp = Inl failure
      \<longrightarrow> snd (solveLp net this lp) = Inl failure)
   \<and> (post_solve net (transport this) ''/api/solve/mip'' mip = Inr payload
      \<longrightarrow> snd (solveMip net this mip) = Inr payload)
   \<and> (post_solve net (transport this) ''/api/solve/mip'' mip = Inl failure
      \<longrightarrow> snd (solveMip net this mip) = Inl failure)
   \<and> (post_tsp net (transport this) ''/api/solve/tsp'' tsp = Inr tour
      \<longrightarrow> snd (solveTsp net this tsp) = Inr tour)
   \<and> (post_tsp net (transport this) ''/api/solve/tsp'' tsp = Inl failure
      \<longrightarrow> snd (solveTsp net this tsp) = Inl failure)"
  by (simp add: solveLp_def solveMip_def solveTsp_def)

theorem facade_returns_payload_witness:
  "snd (solveLp (stub (Inr scenario_payload) ([] :: string list) (Error ''unused''))
          local_client scenario_problem)
     = Inr \<lparr> status = ''OPTIMAL'', objective_value = Some 20,
             solution = Some [(''x'', JNum 0), (''y'', JNum 10)],
             report_id = None, execution_time_ms = None, solver_info = None \<rparr>
   \<and> snd (solveLp (stub (Inl (Error ''Request failed with status code 400'')) ([] :: string list) (Error ''unused''))
          local_client scenario_problem)
     = Inl (Error ''Request failed with status code 400'')"
  using facade_returns_payload
    [of "stub (Inr scenario_payload) ([] :: string list) (Error ''unused'')" local_client
        scenario_problem scenario_payload "Error ''unused''"]
    facade_returns_payload
    [of "stub (Inl (Error ''Request failed with status code 400'')) ([] :: string list) (Error ''unused'')" local_client
        scenario_problem scenario_payload "Error ''Request failed with status code 400''"]
  by (simp add: stub_def scenario_payload_def)

text \<open>
  Claim C5, as stated, fails: \<open>listReports\<close> does not bound the list by \<open>limit\<close>. Against
  a remote that answers a listing with three reports, \<open>listReports(2)\<close> returns all three.
\<close>

theorem listReports_exceeds_limit:
  "snd (listReports integer_toString
          (stub (Inl (Error ''unused'')) [''r1'', ''r2'', ''r3''] (Error ''unused''))
          local_client (Some 2))
     = Inr [''r1'', ''r2'', ''r3'']"
  by (simp add: listReports_def stub_def Let_def)

text \<open>
  Claim C5, amended. \<open>listReports(limit)\<close> issues one \<open>GET\<close> of
  \<open>/api/reports?limit=<limit>\<close> (50 when the argument is left out) and returns the
  \<open>reports\<close> list of the remote's envelope unchanged: the same elements in the same
  order, so as many as the remote sent. A failure of the transport is returned as it is.
\<close>

theorem listReports_unwraps:
  "(get_reports net (transport this)
       (''/api/reports?limit='' @ ns (case limit of None \<Rightarrow> 50 | Some v \<Rightarrow> v)) = Inr response
      \<longrightarrow> snd (listReports ns net this limit) = Inr (reports response))
   \<and> (get_reports net (transport this)
       (''/api/reports?limit='' @ ns (case limit of None \<Rightarrow> 50 | Some v \<Rightarrow> v)) = Inl failure
      \<longrightarrow> snd (listReports ns net this limit) = Inl failure)
   \<and> filter is_request (fst (listReports ns net this limit))
       = [Get (''/api/reports?limit='' @ ns (case limit of None \<Rightarrow> 50 | Some v \<Rightarrow> v))]"
  by (simp add: listReports_def Let_def requests_debug_log)

theorem listReports_unwraps_witness:
  "snd (listReports integer_toString
          (stub (Inl (Error ''unused'')) [''r1'', ''r2''] (Error ''unused''))
          local_client None)
     = Inr [''r1'', ''r2'']
   \<and> filter is_request (fst (listReports integer_toString
          (stub (Inl (Error ''unused'')) [''r1'', ''r2''] (Error ''unused''))
          local_client None))
     = [Get ''/api/reports?limit=50'']"
proof -
  have n: "integer_toString 50 = ''50''"
    by code_simp
  show ?thesis
    using listReports_unwraps
      [of "stub (Inl (Error ''unused'')) [''r1'', ''r2''] (Error ''unused'')" local_client
          integer_toString None "\<lparr> reports = [''r1'', ''r2''], total = 2 \<rparr>" "Error ''unused''"]
    by (simp add: stub_def n)
qed

text \<open>
  Claim C3, as stated, fails: the solve operations of the client fill in no default.
  \<open>solveLp\<close>, given a problem without \<open>constraints\<close> and without \<open>generate_report\<close>,
  posts that problem with both still missing.
\<close>

theorem facade_sends_without_defaults:
  "fst (solveLp (stub (Inr scenario_payload) ([] :: string list) (Error ''unused''))
          local_client
          \<lparr> variables = Some (JArr [JObj [(''name'', JStr ''x''), (''type'', JStr ''continuous'')]]),
            objective = Some (JObj [(''sense'', JStr ''maximize''), (''expression'', JStr ''3*x'')]),
            constraints = None, lp_timeout = None, generate_report = None \<rparr>)
     = [Post ''/api/solve/lp''
          (ProblemBody
             \<lparr> variables = Some (JArr [JObj [(''name'', JStr ''x''), (''type'', JStr ''continuous'')]]),
               objective = Some (JObj [(''sense'', JStr ''maximize''), (''expression'', JStr ''3*x'')]),
               constraints = None, lp_timeout = None, generate_report = None \<rparr>)]"
  by (simp add: solveLp_def debug_log_def local_client_def new_OptimizationClient_def Let_def)

text \<open>
  Claim C3, amended. Each solve operation of the client issues one \<open>POST\<close> to its
  fixed path with the problem exactly as given, nothing defaulted and nothing
  validated, and returns the answer of the transport as it is. The defaults are the
  adapter's: the problem it builds from the tool arguments and passes to the client
  has \<open>generate_report\<close> set to whether the argument is not \<open>false\<close>, and for
  \<open>solve_lp\<close> and \<open>solve_mip\<close> has \<open>constraints\<close> set to the empty list when the
  argument is missing (or otherwise falsy); the other properties are the arguments
  unchanged.
\<close>

theorem solve_sends_verbatim:
  "filter is_request (fst (solveLp net this lp)) = [Post ''/api/solve/lp'' (ProblemBody lp)]
   \<and> snd (solveLp net this lp) = post_solve net (transport this) ''/api/solve/lp'' lp
   \<and> filter is_request (fst (solveMip net this mip)) = [Post ''/api/solve/mip'' (ProblemBody mip)]
   \<and> snd (solveMip net this mip) = post_solve net (transport this) ''/api/solve/mip'' mip
   \<and> filter is_request (fst (solveTsp net this tsp)) = [Post ''/api/solve/tsp'' (TspBody tsp)]
   \<and> snd (solveTsp net this tsp) = post_tsp net (transport this) ''/api/solve/tsp'' tsp
   \<and> fst (CallTool_handler ns env nt ''solve_lp'' (Some args))
       = [Post ''/api/solve/lp'' (ProblemBody (lp_problem_literal args))]
   \<and> fst (CallTool_handler ns env nt ''solve_mip'' (Some args))
       = [Post ''/api/solve/mip'' (ProblemBody (lp_problem_literal args))]
   \<and> fst (CallTool_handler ns env nt ''solve_tsp'' (Some args))
       = [Post ''/api/solve/tsp'' (TspBody (tsp_problem_literal args))]
   \<and> generate_report (lp_problem_literal args)
       = Some (property args ''generate_report'' \<noteq> Some (JBool False))
   \<and> tsp_generate_report (tsp_problem_literal args)
       = Some (property args ''generate_report'' \<noteq> Some (JBool False))
   \<and> constraints (lp_problem_literal args)
       = (if truthy (property args ''constraints'') then property args ''constraints''
          else Some (JArr []))
   \<and> variables (lp_problem_literal args) = property args ''variables''
   \<and> objective (lp_problem_literal args) = property args ''objective''
   \<and> locations (tsp_problem_literal args) = property args ''locations''
   \<and> start_location (tsp_problem_literal args) = property args ''start_location''"
  by (simp add: solveLp_def solveMip_def solveTsp_def requests_debug_log client_debug_off
      CallTool_handler_def try_call_def lp_problem_literal_def tsp_problem_literal_def)

section \<open>The adapter's dispatch\<close>

text \<open>
  Claim C10. For \<open>solve_lp\<close>, \<open>solve_mip\<close> and \<open>solve_tsp\<close> the adapter makes one call
  of the client, and the problem of that call has \<open>generate_report\<close> true exactly when
  the argument \<open>generate_report\<close> is not the boolean \<open>false\<close>: a missing argument and a
  value that is not a boolean both give true.
\<close>

theorem generate_report_unless_false:
  "name \<in> {''solve_lp'', ''solve_mip'', ''solve_tsp''} \<Longrightarrow>
   \<exists>path b. fst (CallTool_handler ns env net name (Some args)) = [Post path b]
     \<and> body_generate_report b
         = Some (property args ''generate_report'' \<noteq> Some (JBool False))"
  by (auto simp add: CallTool_handler_def try_call_def solveLp_def solveMip_def solveTsp_def
      client_debug_off lp_problem_literal_def tsp_problem_literal_def)

theorem generate_report_unless_false_witness:
  "''solve_tsp'' \<in> {''solve_lp'', ''solve_mip'', ''solve_tsp''}
   \<and> (\<exists>path b.
        fst (CallTool_handler integer_toString
               \<lparr> OPT_TOOLS_SERVER_URL = None, OPT_TOOLS_API_KEY = None \<rparr>
               (stub (Inr scenario_payload) ([] :: string list) (Error ''down''))
               ''solve_tsp''
               (Some [(''locations'', JArr []), (''generate_report'', JStr ''false'')]))
          = [Post path b]
        \<and> body_generate_report b = Some True)"
  using generate_report_unless_false
    [of "''solve_tsp''" integer_toString
        "\<lparr> OPT_TOOLS_SERVER_URL = None, OPT_TOOLS_API_KEY = None \<rparr>"
        "stub (Inr scenario_payload) ([] :: string list) (Error ''down'')"
        "[(''locations'', JArr []), (''generate_report'', JStr ''false'')]"]
  by (simp add: property_def)

text \<open>
  Claim C2. The handler is a total function into tool results, so no call throws past
  it. Every result has exactly one text block, and either no error flag or the error
  flag set together with a text that begins \<open>Error: \<close>. An unknown tool name gives
  such an error result, and so does every failure of a client call, with the message
  of the error (or the string form of a thrown value that is not an \<open>Error\<close>).
\<close>

theorem dispatch_catches_errors:
  "(\<exists>t. content (snd (CallTool_handler ns env net name arguments)) = [TextContent t])
   \<and> (isError (snd (CallTool_handler ns env net name arguments)) = None
        \<or> isError (snd (CallTool_handler ns env net name arguments)) = Some True
          \<and> (\<exists>m. content (snd (CallTool_handler ns env net name arguments))
                 = [TextContent (''Error: '' @ m)]))
   \<and> (name \<notin> {''solve_lp'', ''solve_mip'', ''solve_tsp'', ''analyze_problem'', ''get_report''}
        \<longrightarrow> snd (CallTool_handler ns env net name arguments)
            = \<lparr> content = [TextContent (''Error: '' @
                   (case arguments of None \<Rightarrow> ''No arguments provided''
                    | Some args \<Rightarrow> ''Unknown tool: '' @ name))],
                isError = Some True \<rparr>)
   \<and> (\<forall>args error.
        post_solve net (transport (client env)) ''/api/solve/lp'' (lp_problem_literal args) = Inl error
        \<longrightarrow> snd (CallTool_handler ns env net ''solve_lp'' (Some args)) = caught ns error)
   \<and> (\<forall>args error.
        post_solve net (transport (client env)) ''/api/solve/mip'' (lp_problem_literal args) = Inl error
        \<longrightarrow> snd (CallTool_handler ns env net ''solve_mip'' (Some args)) = caught ns error)
   \<and> (\<forall>args error.
        post_tsp net (transport (client env)) ''/api/solve/tsp'' (tsp_problem_literal args) = Inl error
        \<longrightarrow> snd (CallTool_handler ns env net ''solve_tsp'' (Some args)) = caught ns error)
   \<and> (\<forall>args error.
        post_analyze net (transport (client env)) ''/api/analyze'' (property args ''description'')
          = Inl error
        \<longrightarrow> snd (CallTool_handler ns env net ''analyze_problem'' (Some args)) = caught ns error)
   \<and> (\<forall>args error.
        get_text net (transport (client env))
          (''/api/reports/'' @ template ns (property args ''report_id'')) = Inl error
        \<longrightarrow> snd (CallTool_handler ns env net ''get_report'' (Some args)) = caught ns error)
   \<and> (\<forall>error. caught ns error
        = \<lparr> content = [TextContent (''Error: '' @
               (case error of Error m \<Rightarrow> m | Thrown v \<Rightarrow> template ns v))],
            isError = Some True \<rparr>)"
proof -
  let ?r = "snd (CallTool_handler ns env net name arguments)"
  have shape: "(\<exists>t. ?r = text_result t)
     \<or> (\<exists>m. ?r = \<lparr> content = [TextContent (''Error: '' @ m)], isError = Some True \<rparr>)"
    by (rule handler_shape)
  have one: "\<exists>t. content ?r = [TextContent t]"
    using shape by (auto simp add: text_result_fields)
  have flag: "isError ?r = None
     \<or> isError ?r = Some True \<and> (\<exists>m. content ?r = [TextContent (''Error: '' @ m)])"
    using shape by (auto simp add: text_result_fields)
  have c: "\<forall>error. caught ns error
        = \<lparr> content = [TextContent (''Error: '' @
               (case error of Error m \<Rightarrow> m | Thrown v \<Rightarrow> template ns v))],
            isError = Some True \<rparr>"
    by (simp add: caught_def)
  show ?thesis
    apply (intro conjI)
           apply (rule one)
          apply (rule flag)
         apply (rule impI, erule handler_unknown_tool)
        apply (intro allI impI, erule handler_failure)+
    apply (rule c)
    done
qed

theorem dispatch_catches_errors_witness:
  "snd (CallTool_handler integer_toString
          \<lparr> OPT_TOOLS_SERVER_URL = None, OPT_TOOLS_API_KEY = None \<rparr>
          (stub (Inl (Error ''Network Error'')) ([] :: string list) (Thrown None))
          ''solve_qp'' (Some []))
     = \<lparr> content = [TextContent ''Error: Unknown tool: solve_qp''], isError = Some True \<rparr>
   \<and> snd (CallTool_handler integer_toString
          \<lparr> OPT_TOOLS_SERVER_URL = None, OPT_TOOLS_API_KEY = None \<rparr>
          (stub (Inl (Error ''Network Error'')) ([] :: string list) (Thrown None))
          ''solve_lp'' (Some []))
     = \<lparr> content = [TextContent ''Error: Network Error''], isError = Some True \<rparr>
   \<and> snd (CallTool_handler integer_toString
          \<lparr> OPT_TOOLS_SERVER_URL = None, OPT_TOOLS_API_KEY = None \<rparr>
          (stub (Inl (Error ''Network Error'')) ([] :: string list) (Thrown None))
          ''get_report'' (Some []))
     = \<lparr> content = [TextContent ''Error: undefined''], isError = Some True \<rparr>"
proof -
  let ?env = "\<lparr> OPT_TOOLS_SERVER_URL = None, OPT_TOOLS_API_KEY = None \<rparr>"
  let ?net = "stub (Inl (Error ''Network Error'')) ([] :: string list) (Thrown None)"
  have unknown: "''solve_qp'' \<notin> {''solve_lp'', ''solve_mip'', ''solve_tsp'', ''analyze_problem'', ''get_report''}"
    by simp
  have lp: "post_solve ?net (transport (client ?env)) ''/api/solve/lp'' (lp_problem_literal [])
      = Inl (Error ''Network Error'')"
    by (simp add: stub_def)
  have rep: "get_text ?net (transport (client ?env))
      (''/api/reports/'' @ template integer_toString (property [] ''report_id'')) = Inl (Thrown None)"
    by (simp add: stub_def)
  show ?thesis
    using dispatch_catches_errors [of integer_toString ?env ?net "''solve_qp''" "Some []"]
      unknown lp rep
    by (simp add: template_def)
qed

section \<open>The adapter's formatting\<close>

text \<open>
  Claim C6. \<open>formatTspResponse\<close> joins its lines with newlines. For a result with an
  objective value the fourth line is the value divided by 1000, as doubles are
  divided, and rendered by \<open>toFixed(2)\<close>, followed by \<open>km\<close>: for 15000 it reads
  \<open>15.00 km\<close>, for 1005 \<open>1.00 km\<close> (the double nearest to 1.005 lies below it), and for
  every distance below \<open>10^23\<close> metres the quotient is finite and its rendering is a
  sign, digits, a point and exactly two digits. When the solution has route names, the
  line after the route heading is the names joined by arrows; when it has segments, the
  lines hold the segment heading followed by one line for each segment, in order, with
  the segment's distance in kilometres with two decimals.
\<close>

theorem tsp_renders_kilometres:
  "formatTspResponse ns url result = join newline (tsp_lines ns url result)
   \<and> (\<forall>v. objective_value result = Some v \<longrightarrow>
        tsp_lines ns url result ! 3
          = ''**Total Distance:** '' @ toFixed ns 2 (js_divide (to_double v) 1000) @ '' km'')
   \<and> (objective_value result = Some 15000 \<longrightarrow>
        tsp_lines ns url result ! 3 = ''**Total Distance:** 15.00 km'')
   \<and> (objective_value result = Some 1005 \<longrightarrow>
        tsp_lines ns url result ! 3 = ''**Total Distance:** 1.00 km'')
   \<and> (\<forall>v. \<bar>v\<bar> < 10 ^ 23 \<longrightarrow>
        (\<exists>q whole d1 d2.
           js_divide (to_double v) 1000 = Finite q
           \<and> toFixed ns 2 (js_divide (to_double v) 1000)
               = (if q < 0 then ''-'' else []) @ whole @ ''.'' @ [d1, d2]
           \<and> whole \<noteq> [] \<and> set (whole @ [d1, d2]) \<subseteq> set digits))
   \<and> (\<forall>s route. solution result = Some s \<and> route_names s = Some route \<longrightarrow>
        tsp_lines ns url result ! 6 = join ('' '' @ arrow @ '' '') route)
   \<and> (\<forall>s segs. solution result = Some s \<and> segments s = Some segs \<longrightarrow>
        (\<exists>before after. tsp_lines ns url result
           = before @ [[], ''### Route Segments:'']
             @ map (\<lambda>seg. ''- '' @ from_name seg @ '' '' @ arrow @ '' '' @ to_name seg
                            @ '': '' @ toFixed ns 2 (js_divide (to_double (distance seg)) 1000)
                            @ '' km'') segs
             @ after))"
proof -
  have c1: "formatTspResponse ns url result = join newline (tsp_lines ns url result)"
    by (simp add: formatTspResponse_def)
  have c2: "\<forall>v. objective_value result = Some v \<longrightarrow>
        tsp_lines ns url result ! 3
          = ''**Total Distance:** '' @ toFixed ns 2 (js_divide (to_double v) 1000) @ '' km''"
    using tsp_distance_line by blast
  have fifteen: "toFixed ns 2 (js_divide (to_double 15000) 1000) = ''15.00''"
    by code_simp
  have c3: "objective_value result = Some 15000 \<longrightarrow>
        tsp_lines ns url result ! 3 = ''**Total Distance:** 15.00 km''"
    using tsp_distance_line [of result 15000 ns url] fifteen by simp
  have thousand_five: "toFixed ns 2 (js_divide (to_double 1005) 1000) = ''1.00''"
    by code_simp
  have c4: "objective_value result = Some 1005 \<longrightarrow>
        tsp_lines ns url result ! 3 = ''**Total Distance:** 1.00 km''"
    using tsp_distance_line [of result 1005 ns url] thousand_five by simp
  have c5: "\<forall>v. \<bar>v\<bar> < 10 ^ 23 \<longrightarrow>
        (\<exists>q whole d1 d2.
           js_divide (to_double v) 1000 = Finite q
           \<and> toFixed ns 2 (js_divide (to_double v) 1000)
               = (if q < 0 then ''-'' else []) @ whole @ ''.'' @ [d1, d2]
           \<and> whole \<noteq> [] \<and> set (whole @ [d1, d2]) \<subseteq> set digits)"
  proof (intro allI impI)
    fix v :: rat
    assume "\<bar>v\<bar> < 10 ^ 23"
    from kilometres_finite [OF this] obtain q where
      q: "js_divide (to_double v) 1000 = Finite q" "\<bar>q\<bar> < 10 ^ 21"
      by blast
    from fixed_two_decimals [OF q(2), of ns] obtain whole d1 d2 where
      "fixed ns 2 q = (if q < 0 then ''-'' else []) @ whole @ ''.'' @ [d1, d2]"
      "whole \<noteq> []" "set (whole @ [d1, d2]) \<subseteq> set digits"
      by blast
    with q(1) show "\<exists>q whole d1 d2.
           js_divide (to_double v) 1000 = Finite q
           \<and> toFixed ns 2 (js_divide (to_double v) 1000)
               = (if q < 0 then ''-'' else []) @ whole @ ''.'' @ [d1, d2]
           \<and> whole \<noteq> [] \<and> set (whole @ [d1, d2]) \<subseteq> set digits"
      by (intro exI [of _ q] exI [of _ whole] exI [of _ d1] exI [of _ d2]) simp
  qed
  have c6: "\<forall>s route. solution result = Some s \<and> route_names s = Some route \<longrightarrow>
        tsp_lines ns url result ! 6 = join ('' '' @ arrow @ '' '') route"
    using tsp_route_line by blast
  have c7: "\<forall>s segs. solution result = Some s \<and> segments s = Some segs \<longrightarrow>
        (\<exists>before after. tsp_lines ns url result
           = before @ [[], ''### Route Segments:'']
             @ map (\<lambda>seg. ''- '' @ from_name seg @ '' '' @ arrow @ '' '' @ to_name seg
                            @ '': '' @ toFixed ns 2 (js_divide (to_double (distance seg)) 1000)
                            @ '' km'') segs
             @ after)"
    using tsp_segment_lines by blast
  from c1 c2 c3 c4 c5 c6 c7 show ?thesis
    by (intro conjI)
qed

theorem tsp_renders_kilometres_witness:
  "tsp_lines integer_toString ''http://164.92.92.181'' example_tour ! 3 = ''**Total Distance:** 15.00 km''
   \<and> tsp_lines integer_toString ''http://164.92.92.181'' example_tour ! 6
       = ''Depot '' @ arrow @ '' Mill '' @ arrow @ '' Depot''
   \<and> (\<exists>before after. tsp_lines integer_toString ''http://164.92.92.181'' example_tour
         = before @ [[], ''### Route Segments:'',
                     ''- Depot '' @ arrow @ '' Mill: 7.25 km'',
                     ''- Mill '' @ arrow @ '' Depot: 7.75 km''] @ after)"
proof -
  let ?url = "''http://164.92.92.181''"
  let ?s = "\<lparr> route_names = Some [''Depot'', ''Mill'', ''Depot''],
              segments = Some [\<lparr> from_name = ''Depot'', to_name = ''Mill'', distance = 7250 \<rparr>,
                               \<lparr> from_name = ''Mill'', to_name = ''Depot'', distance = 7750 \<rparr>] \<rparr>"
  note T = tsp_renders_kilometres [of integer_toString ?url example_tour]
  have ov: "objective_value example_tour = Some 15000"
    by (simp add: example_tour_def)
  have route: "solution example_tour = Some ?s \<and> route_names ?s = Some [''Depot'', ''Mill'', ''Depot'']"
    by (simp add: example_tour_def)
  have segs: "solution example_tour = Some ?s
      \<and> segments ?s = Some [\<lparr> from_name = ''Depot'', to_name = ''Mill'', distance = 7250 \<rparr>,
                             \<lparr> from_name = ''Mill'', to_name = ''Depot'', distance = 7750 \<rparr>]"
    by (simp add: example_tour_def)
  have a: "toFixed integer_toString 2 (js_divide (to_double 7250) 1000) = ''7.25''"
    by code_simp
  have b: "toFixed integer_toString 2 (js_divide (to_double 7750) 1000) = ''7.75''"
    by code_simp
  have l3: "tsp_lines integer_toString ?url example_tour ! 3 = ''**Total Distance:** 15.00 km''"
    using T [THEN conjunct2, THEN conjunct2, THEN conjunct1] ov by (rule mp)
  have l6: "tsp_lines integer_toString ?url example_tour ! 6
      = join ('' '' @ arrow @ '' '') [''Depot'', ''Mill'', ''Depot'']"
    using T [THEN conjunct2, THEN conjunct2, THEN conjunct2, THEN conjunct2, THEN conjunct2,
        THEN conjunct1, rule_format, OF route] .
  have l7: "\<exists>before after. tsp_lines integer_toString ?url example_tour
      = before @ [[], ''### Route Segments:'']
        @ map (\<lambda>seg. ''- '' @ from_name seg @ '' '' @ arrow @ '' '' @ to_name seg
                       @ '': '' @ toFixed integer_toString 2 (js_divide (to_double (distance seg)) 1000)
                       @ '' km'')
            [\<lparr> from_name = ''Depot'', to_name = ''Mill'', distance = 7250 \<rparr>,
             \<lparr> from_name = ''Mill'', to_name = ''Depot'', distance = 7750 \<rparr>]
        @ after"
    using T [THEN conjunct2, THEN conjunct2, THEN conjunct2, THEN conjunct2, THEN conjunct2,
        THEN conjunct2, rule_format, OF segs] .
  have m: "map (\<lambda>seg. ''- '' @ from_name seg @ '' '' @ arrow @ '' '' @ to_name seg
                       @ '': '' @ toFixed integer_toString 2 (js_divide (to_double (distance seg)) 1000)
                       @ '' km'')
            [\<lparr> from_name = ''Depot'', to_name = ''Mill'', distance = 7250 \<rparr>,
             \<lparr> from_name = ''Mill'', to_name = ''Depot'', distance = 7750 \<rparr>]
      = [''- Depot '' @ arrow @ '' Mill: 7.25 km'', ''- Mill '' @ arrow @ '' Depot: 7.75 km'']"
    by (simp only: list.map segment.select_convs a b) simp
  from l7 obtain before after where
    "tsp_lines integer_toString ?url example_tour
      = before @ [[], ''### Route Segments:'']
        @ [''- Depot '' @ arrow @ '' Mill: 7.25 km'', ''- Mill '' @ arrow @ '' Depot: 7.75 km'']
        @ after"
    unfolding m by blast
  then have l7': "\<exists>before after. tsp_lines integer_toString ?url example_tour
         = before @ [[], ''### Route Segments:'',
                     ''- Depot '' @ arrow @ '' Mill: 7.25 km'',
                     ''- Mill '' @ arrow @ '' Depot: 7.75 km''] @ after"
    by (intro exI [of _ before] exI [of _ after]) simp
  have j: "join ('' '' @ arrow @ '' '') [''Depot'', ''Mill'', ''Depot'']
      = ''Depot '' @ arrow @ '' Mill '' @ arrow @ '' Depot''"
    by simp
  show ?thesis
    using l3 l6 l7' unfolding j by (intro conjI)
qed

text \<open>
  Claim C7, as stated, fails in its second half: a result whose \<open>report_id\<close> is present
  but is the empty string gets no report hint, because the formatter tests the
  identifier for truthiness.
\<close>

theorem empty_report_id_gives_no_hint:
  "solve_lines integer_toString ''http://164.92.92.181''
     \<lparr> status = ''OPTIMAL'', objective_value = Some 20,
       solution = Some [(''x'', JNum 0), (''y'', JNum 10)],
       report_id = Some [], execution_time_ms = Some 12, solver_info = None \<rparr>
     ''Linear Programming''
   = [''## Linear Programming Solution'', [], ''**Status:** OPTIMAL'',
      ''**Objective Value:** 20'', [], ''### Solution Values:'', ''- x = 0'',
      ''- y = 10'', [], ''**Solve Time:** 12.00ms'', ''**Solver:** OR-Tools'']"
  by code_simp

text \<open>
  Claim C7, amended. The lines of \<open>formatSolveResponse\<close> are the lines it produces for
  the same result without \<open>report_id\<close>, none of which opens like a report hint,
  followed by the hint. When \<open>report_id\<close> is absent or the empty string there is no
  hint and so no hint line at all; when it is present and not empty the hint is a blank
  line, the \<open>Report ID\<close> line and the line with the report's address. The lines of
  \<open>formatTspResponse\<close> are extended in the same way, with its own wording of the
  address line.
\<close>

theorem report_hint_when_nonempty:
  "formatSolveResponse ns url result pt = join newline (solve_lines ns url result pt)
   \<and> (\<forall>l \<in> set (solve_lines ns url (result\<lparr>report_id := None\<rparr>) pt). \<not> is_hint_line l)
   \<and> (report_id result = None \<or> report_id result = Some [] \<longrightarrow>
        solve_lines ns url result pt = solve_lines ns url (result\<lparr>report_id := None\<rparr>) pt
        \<and> (\<forall>l \<in> set (solve_lines ns url result pt). \<not> is_hint_line l))
   \<and> (\<forall>rid. report_id result = Some rid \<and> rid \<noteq> [] \<longrightarrow>
        solve_lines ns url result pt
          = solve_lines ns url (result\<lparr>report_id := None\<rparr>) pt
            @ [[], ''**Report ID:** '' @ rid,
               ''View the full report at: '' @ url @ ''/api/reports/'' @ rid])
   \<and> (report_id trip = None \<or> report_id trip = Some [] \<longrightarrow>
        tsp_lines ns url trip = tsp_lines ns url (trip\<lparr>report_id := None\<rparr>))
   \<and> (\<forall>rid. report_id trip = Some rid \<and> rid \<noteq> [] \<longrightarrow>
        tsp_lines ns url trip
          = tsp_lines ns url (trip\<lparr>report_id := None\<rparr>)
            @ [[], ''**Report ID:** '' @ rid,
               ''View the route map at: '' @ url @ ''/api/reports/'' @ rid])"
proof -
  have none: "solve_lines ns url result pt = solve_lines ns url (result\<lparr>report_id := None\<rparr>) pt"
    if "report_id result = None \<or> report_id result = Some []"
    using that solve_lines_split [of ns url result pt] by (auto simp add: report_lines_def)
  have some: "solve_lines ns url result pt
          = solve_lines ns url (result\<lparr>report_id := None\<rparr>) pt
            @ [[], ''**Report ID:** '' @ rid,
               ''View the full report at: '' @ url @ ''/api/reports/'' @ rid]"
    if "report_id result = Some rid \<and> rid \<noteq> []" for rid
    using that solve_lines_split [of ns url result pt] by (simp add: report_lines_def)
  have tnone: "tsp_lines ns url trip = tsp_lines ns url (trip\<lparr>report_id := None\<rparr>)"
    if "report_id trip = None \<or> report_id trip = Some []"
    using that tsp_lines_split [of ns url trip] by (auto simp add: report_lines_def)
  have tsome: "tsp_lines ns url trip
          = tsp_lines ns url (trip\<lparr>report_id := None\<rparr>)
            @ [[], ''**Report ID:** '' @ rid,
               ''View the route map at: '' @ url @ ''/api/reports/'' @ rid]"
    if "report_id trip = Some rid \<and> rid \<noteq> []" for rid
    using that tsp_lines_split [of ns url trip] by (simp add: report_lines_def)
  have body: "\<forall>l \<in> set (solve_lines ns url (result\<lparr>report_id := None\<rparr>) pt). \<not> is_hint_line l"
    using solve_body_no_hint by blast
  have c1: "formatSolveResponse ns url result pt = join newline (solve_lines ns url result pt)"
    by (simp add: formatSolveResponse_def)
  have c3: "report_id result = None \<or> report_id result = Some [] \<longrightarrow>
        solve_lines ns url result pt = solve_lines ns url (result\<lparr>report_id := None\<rparr>) pt
        \<and> (\<forall>l \<in> set (solve_lines ns url result pt). \<not> is_hint_line l)"
    using none body by simp
  have c4: "\<forall>rid. report_id result = Some rid \<and> rid \<noteq> [] \<longrightarrow>
        solve_lines ns url result pt
          = solve_lines ns url (result\<lparr>report_id := None\<rparr>) pt
            @ [[], ''**Report ID:** '' @ rid,
               ''View the full report at: '' @ url @ ''/api/reports/'' @ rid]"
    using some by blast
  have c5: "report_id trip = None \<or> report_id trip = Some [] \<longrightarrow>
        tsp_lines ns url trip = tsp_lines ns url (trip\<lparr>report_id := None\<rparr>)"
    using tnone by blast
  have c6: "\<forall>rid. report_id trip = Some rid \<and> rid \<noteq> [] \<longrightarrow>
        tsp_lines ns url trip
          = tsp_lines ns url (trip\<lparr>report_id := None\<rparr>)
            @ [[], ''**Report ID:** '' @ rid,
               ''View the route map at: '' @ url @ ''/api/reports/'' @ rid]"
    using tsome by blast
  from c1 body c3 c4 c5 c6 show ?thesis
    by (intro conjI)
qed

theorem report_hint_when_nonempty_witness:
  "solve_lines integer_toString ''http://164.92.92.181''
       (scenario_payload\<lparr>report_id := Some ''r-17''\<rparr>) ''Linear Programming''
     = solve_lines integer_toString ''http://164.92.92.181''
         (scenario_payload\<lparr>report_id := Some ''r-17''\<rparr>\<lparr>report_id := None\<rparr>)
         ''Linear Programming''
       @ [[], ''**Report ID:** r-17'',
          ''View the full report at: http://164.92.92.181/api/reports/r-17'']
   \<and> filter is_hint_line
         (solve_lines integer_toString ''http://164.92.92.181'' scenario_payload
            ''Linear Programming'') = []"
proof -
  let ?url = "''http://164.92.92.181''"
  let ?r = "scenario_payload\<lparr>report_id := Some ''r-17''\<rparr>"
  have given: "report_id ?r = Some ''r-17'' \<and> ''r-17'' \<noteq> []"
    by simp
  have absent: "report_id scenario_payload = None \<or> report_id scenario_payload = Some []"
    by (simp add: scenario_payload_def)
  have with_hint: "solve_lines integer_toString ?url ?r ''Linear Programming''
     = solve_lines integer_toString ?url (?r\<lparr>report_id := None\<rparr>) ''Linear Programming''
       @ [[], ''**Report ID:** '' @ ''r-17'',
          ''View the full report at: '' @ ?url @ ''/api/reports/'' @ ''r-17'']"
    using report_hint_when_nonempty
      [of integer_toString ?url ?r "''Linear Programming''" example_tour,
       THEN conjunct2, THEN conjunct2, THEN conjunct2, THEN conjunct1, rule_format, OF given] .
  have "\<forall>l \<in> set (solve_lines integer_toString ?url scenario_payload ''Linear Programming'').
      \<not> is_hint_line l"
    using report_hint_when_nonempty
      [of integer_toString ?url scenario_payload "''Linear Programming''" example_tour,
       THEN conjunct2, THEN conjunct2, THEN conjunct1] absent
    by blast
  then have without: "filter is_hint_line
      (solve_lines integer_toString ?url scenario_payload ''Linear Programming'') = []"
    by (simp add: filter_empty_conv)
  from with_hint without show ?thesis
    by simp
qed

section \<open>The retry policy\<close>

text \<open>
  Claim C1, as stated, fails: a status other than 429 and 503 does not always end the
  request at once. A \<open>GET\<close> that is answered 500 every time is issued four times when
  three retries are configured, because the library's predicate accepts a 5xx answer to
  an idempotent request.
\<close>

theorem get_500_is_retried:
  "request_with_retry (retryCondition (isNetworkOrIdempotentRequestError unreachable_code))
     (\<lambda>i. Inl \<lparr> request_method = GET, response_status = Some 500,
                code = Some ''ERR_BAD_RESPONSE'',
                message = ''Request failed with status code 500'' \<rparr> :: AxiosError + unit) 3 0
     = (4, Inl \<lparr> request_method = GET, response_status = Some 500,
                  code = Some ''ERR_BAD_RESPONSE'',
                  message = ''Request failed with status code 500'' \<rparr>)"
  by code_simp

text \<open>
  Claim C1, amended. A failure is retried, while retries are left, exactly when one of
  these holds: no response was received and the error carries a code that is neither
  the timeout's nor refused by is-retry-allowed, whatever the method; or the method is
  idempotent (\<open>GET\<close>), the error is not a timeout, and either no response was received
  or the status is 429 or 5xx; or the status is 429 or 503. So a status below 500 other
  than 429, 400 in particular, is never retried, nor is any status other than 429 and
  503 on a \<open>POST\<close>, nor a timeout without a response: the request then ends after one
  attempt with that failure. A failure that is retried is followed by a second
  attempt, and when every attempt fails with a failure that is retried, the requests
  issued are one more than the retries and the caller gets the last failure.
\<close>

theorem retried_exactly_when:
  "retryCondition (isNetworkOrIdempotentRequestError denied) error
     = (response_status error = None
          \<and> (\<exists>c. code error = Some c \<and> c \<noteq> [] \<and> c \<noteq> ''ECONNABORTED'' \<and> \<not> denied c)
        \<or> idempotent (request_method error) \<and> code error \<noteq> Some ''ECONNABORTED''
          \<and> (response_status error = None
               \<or> (\<exists>s. response_status error = Some s \<and> (s = 429 \<or> 500 \<le> s \<and> s \<le> 599)))
        \<or> response_status error = Some 429
        \<or> response_status error = Some 503)
   \<and> (\<forall>s. response_status error = Some s \<and> s < 500 \<and> s \<noteq> 429 \<longrightarrow>
        \<not> retryCondition (isNetworkOrIdempotentRequestError denied) error)
   \<and> (\<forall>s. response_status error = Some s \<and> request_method error = POST \<and> s \<noteq> 429 \<and> s \<noteq> 503 \<longrightarrow>
        \<not> retryCondition (isNetworkOrIdempotentRequestError denied) error)
   \<and> (response_status error = None \<and> code error = Some ''ECONNABORTED'' \<longrightarrow>
        \<not> retryCondition (isNetworkOrIdempotentRequestError denied) error)
   \<and> (remote 0 = Inl error \<and> \<not> retryCondition (isNetworkOrIdempotentRequestError denied) error \<longrightarrow>
        request_with_retry (retryCondition (isNetworkOrIdempotentRequestError denied)) remote n 0
          = (1, Inl error))
   \<and> (remote 0 = Inl error \<and> response_status error = Some 400 \<longrightarrow>
        request_with_retry (retryCondition (isNetworkOrIdempotentRequestError denied)) remote n 0
          = (1, Inl error))
   \<and> (remote 0 = Inl error \<and> retryCondition (isNetworkOrIdempotentRequestError denied) error \<longrightarrow>
        2 \<le> fst (request_with_retry (retryCondition (isNetworkOrIdempotentRequestError denied))
                    remote (Suc left) 0))
   \<and> ((\<forall>j. remote j = Inl (failure j)
             \<and> retryCondition (isNetworkOrIdempotentRequestError denied) (failure j)) \<longrightarrow>
        request_with_retry (retryCondition (isNetworkOrIdempotentRequestError denied)) remote n 0
          = (Suc n, Inl (failure n)))"
proof -
  let ?cond = "retryCondition (isNetworkOrIdempotentRequestError denied)"
  have c1: "?cond error
     = (response_status error = None
          \<and> (\<exists>c. code error = Some c \<and> c \<noteq> [] \<and> c \<noteq> ''ECONNABORTED'' \<and> \<not> denied c)
        \<or> idempotent (request_method error) \<and> code error \<noteq> Some ''ECONNABORTED''
          \<and> (response_status error = None
               \<or> (\<exists>s. response_status error = Some s \<and> (s = 429 \<or> 500 \<le> s \<and> s \<le> 599)))
        \<or> response_status error = Some 429
        \<or> response_status error = Some 503)"
    unfolding retryCondition_def library_condition_unfolded by blast
  have c2: "\<forall>s. response_status error = Some s \<and> s < 500 \<and> s \<noteq> 429 \<longrightarrow> \<not> ?cond error"
    using client_error_not_retried by blast
  have c3: "\<forall>s. response_status error = Some s \<and> request_method error = POST \<and> s \<noteq> 429 \<and> s \<noteq> 503
      \<longrightarrow> \<not> ?cond error"
    using post_status_not_retried by blast
  have c4: "response_status error = None \<and> code error = Some ''ECONNABORTED'' \<longrightarrow> \<not> ?cond error"
    using timeout_not_retried by blast
  have c5: "remote 0 = Inl error \<and> \<not> ?cond error \<longrightarrow>
        request_with_retry ?cond remote n 0 = (1, Inl error)"
    using no_retry_one_request [of remote error ?cond n] by blast
  have bad: "\<not> ?cond error" if "response_status error = Some 400"
    using client_error_not_retried [OF that, of denied] by simp
  have c6: "remote 0 = Inl error \<and> response_status error = Some 400 \<longrightarrow>
        request_with_retry ?cond remote n 0 = (1, Inl error)"
    using c5 bad by blast
  have c7: "remote 0 = Inl error \<and> ?cond error \<longrightarrow>
        2 \<le> fst (request_with_retry ?cond remote (Suc left) 0)"
    using request_count [of 1 ?cond remote left] by simp
  have c8: "(\<forall>j. remote j = Inl (failure j) \<and> ?cond (failure j)) \<longrightarrow>
        request_with_retry ?cond remote n 0 = (Suc n, Inl (failure n))"
    using always_retried [of remote failure ?cond n 0] by simp
  from c1 c2 c3 c4 c5 c6 c7 c8 show ?thesis
    by (intro conjI)
qed

theorem retried_exactly_when_witness:
  "request_with_retry (retryCondition (isNetworkOrIdempotentRequestError unreachable_code))
     (\<lambda>i. Inl \<lparr> request_method = POST, response_status = Some 400,
                code = Some ''ERR_BAD_REQUEST'',
                message = ''Request failed with status code 400'' \<rparr> :: AxiosError + unit) 3 0
     = (1, Inl \<lparr> request_method = POST, response_status = Some 400,
                  code = Some ''ERR_BAD_REQUEST'',
                  message = ''Request failed with status code 400'' \<rparr>)
   \<and> request_with_retry (retryCondition (isNetworkOrIdempotentRequestError unreachable_code))
     (\<lambda>i. Inl \<lparr> request_method = POST, response_status = None,
                code = Some ''ECONNREFUSED'',
                message = ''connect ECONNREFUSED'' \<rparr> :: AxiosError + unit) 3 0
     = (4, Inl \<lparr> request_method = POST, response_status = None,
                  code = Some ''ECONNREFUSED'',
                  message = ''connect ECONNREFUSED'' \<rparr>)"
proof -
  let ?cond = "retryCondition (isNetworkOrIdempotentRequestError unreachable_code)"
  let ?e400 = "\<lparr> request_method = POST, response_status = Some 400,
                 code = Some ''ERR_BAD_REQUEST'',
                 message = ''Request failed with status code 400'' \<rparr>"
  let ?refused = "\<lparr> request_method = POST, response_status = None,
                 code = Some ''ECONNREFUSED'',
                 message = ''connect ECONNREFUSED'' \<rparr>"
  let ?bad = "\<lambda>i. Inl ?e400 :: AxiosError + unit"
  let ?down = "\<lambda>i. Inl ?refused :: AxiosError + unit"
  have h: "?bad 0 = Inl ?e400 \<and> response_status ?e400 = Some 400"
    by simp
  have one: "request_with_retry ?cond ?bad 3 0 = (1, Inl ?e400)"
    using retried_exactly_when [of unreachable_code ?e400 ?bad 3 0 "\<lambda>j. ?e400",
        THEN conjunct2, THEN conjunct2, THEN conjunct2, THEN conjunct2, THEN conjunct2,
        THEN conjunct1] h
    by (rule mp)
  have accepted: "?cond ?refused"
    by (simp add: retryCondition_def isNetworkOrIdempotentRequestError_def isNetworkError_def
        unreachable_code_def)
  then have all: "\<forall>j. ?down j = Inl ((\<lambda>j. ?refused) j) \<and> ?cond ((\<lambda>j. ?refused) j)"
    by simp
  have four: "request_with_retry ?cond ?down 3 0 = (Suc 3, Inl ?refused)"
    using retried_exactly_when [of unreachable_code ?refused ?down 3 0 "\<lambda>j. ?refused",
        THEN conjunct2, THEN conjunct2, THEN conjunct2, THEN conjunct2, THEN conjunct2,
        THEN conjunct2, THEN conjunct2] all
    by (rule mp)
  from one four show ?thesis
    by simp
qed

end
